theory Spec2Isabelle
  imports Complex_Main "HOL-Library.Word" "HOL-Library.Monad_Syntax" "HOL-Library.Sublist"
begin

section \<open>Values of the JavaScript runtime\<close>

text \<open>
  Strings are lists of code units; the model keeps to code units below 256.  Parsed JSON
  documents are the values \<open>JSON.parse\<close> hands to the program.  A number is kept as
  its exact value (the infinities that an out-of-range literal parses to behave, in
  everything modelled here, as any other non-zero number).  The pairs of \<open>JObj\<close> are
  the own properties of the object, each key once.
\<close>

datatype json =
    JNull
  | JBool bool
  | JNum rat
  | JStr string
  | JArr "json list"
  | JObj "(string \<times> json) list"

text \<open>
  \<open>member v k\<close> is the expression \<open>v.k\<close> for a value \<open>v\<close> that is not null, with
  \<open>None\<close> for \<open>undefined\<close>.  It is used for the keys the two programs read (\<open>type\<close>,
  \<open>id\<close>, \<open>expires_at\<close>, \<open>transcript\<close>, \<open>turn_is_formatted\<close>, \<open>username\<close>,
  \<open>password\<close>, ...), none of which is a property of a built-in prototype.
\<close>

fun member :: "json \<Rightarrow> string \<Rightarrow> json option" where
  "member (JObj kvs) k = map_of kvs k"
| "member _ k = None"

text \<open>JavaScript truthiness of a value that may be \<open>undefined\<close>, and \<open>v || d\<close>.\<close>

fun truthy :: "json option \<Rightarrow> bool" where
  "truthy None = False"
| "truthy (Some JNull) = False"
| "truthy (Some (JBool b)) = b"
| "truthy (Some (JNum r)) = (r \<noteq> 0)"
| "truthy (Some (JStr s)) = (s \<noteq> [])"
| "truthy (Some (JArr _)) = True"
| "truthy (Some (JObj _)) = True"

definition or_else :: "json option \<Rightarrow> json \<Rightarrow> json" where
  "or_else v d = (case v of None \<Rightarrow> d | Some x \<Rightarrow> if truthy v then x else d)"

text \<open>
  String conversion, as a template literal or a concatenation performs it (\<open>None\<close>: a
  TypeError).  An object made by \<open>JSON.parse\<close> converts to \<open>[object Object]\<close> through
  the inherited \<open>toString\<close>, unless it has an own property \<open>toString\<close>: that is a
  JSON value, not callable, and \<open>valueOf\<close> gives no primitive either.  An array joins
  the conversions of its elements, with the empty string for \<open>null\<close>.  The digits of a
  number are left to the parameter \<open>num\<close>.
\<close>

fun join_texts :: "string option list \<Rightarrow> string option" where
  "join_texts [] = Some []"
| "join_texts [x] = x"
| "join_texts (x # y # ys) =
     (case (x, join_texts (y # ys)) of (Some a, Some b) \<Rightarrow> Some (a @ '','' @ b) | _ \<Rightarrow> None)"

fun js_text :: "(rat \<Rightarrow> string) \<Rightarrow> json \<Rightarrow> string option" where
  "js_text num JNull = Some ''null''"
| "js_text num (JBool b) = Some (if b then ''true'' else ''false'')"
| "js_text num (JNum r) = Some (num r)"
| "js_text num (JStr s) = Some s"
| "js_text num (JArr xs) =
     join_texts (map (\<lambda>x. if x = JNull then Some [] else js_text num x) xs)"
| "js_text num (JObj kvs) =
     (if map_of kvs ''toString'' = None then Some ''[object Object]'' else None)"

text \<open>A value that is \<open>undefined\<close>, \<open>null\<close>, a boolean, a number or a string.\<close>

fun primitive :: "json option \<Rightarrow> bool" where
  "primitive (Some (JArr _)) = False"
| "primitive (Some (JObj _)) = False"
| "primitive _ = True"

text \<open>\<open>String.prototype.trim\<close>: white space and line terminators below code unit 256.\<close>

definition is_space :: "char \<Rightarrow> bool" where
  "is_space c = ((of_char c :: nat) \<in> {9, 10, 11, 12, 13, 32, 160})"

definition trim :: "string \<Rightarrow> string" where
  "trim s = rev (dropWhile is_space (rev (dropWhile is_space s)))"

section \<open>Buffers\<close>

type_synonym byte = "8 word"
type_synonym buffer = "byte list"

definition Buffer_alloc :: "nat \<Rightarrow> buffer" where
  "Buffer_alloc n = replicate n 0"

text \<open>Overwriting the bytes of \<open>buf\<close> from offset \<open>off\<close> with \<open>bs\<close>.\<close>

definition poke :: "buffer \<Rightarrow> nat \<Rightarrow> byte list \<Rightarrow> buffer" where
  "poke buf off bs = take off buf @ bs @ drop (off + length bs) buf"

definition ascii :: "string \<Rightarrow> byte list" where
  "ascii s = map (\<lambda>c. word_of_nat (of_char c)) s"

text \<open>\<open>buf.write(s, off)\<close> writes as much of the string as fits.\<close>

definition buffer_write :: "buffer \<Rightarrow> string \<Rightarrow> nat \<Rightarrow> buffer" where
  "buffer_write buf s off = poke buf off (take (length buf - off) (ascii s))"

text \<open>The low byte first, then the value shifted right by eight bits, \<open>k\<close> times.\<close>

fun le_bytes :: "nat \<Rightarrow> nat \<Rightarrow> byte list" where
  "le_bytes 0 v = []"
| "le_bytes (Suc k) v = word_of_nat v # le_bytes k (v div 256)"

text \<open>
  \<open>buf.writeUInt32LE(v, off)\<close> and \<open>buf.writeUInt16LE(v, off)\<close> throw a RangeError
  (\<open>None\<close>) when the value does not fit the field or the field does not fit the buffer.
\<close>

definition writeUInt32LE :: "buffer \<Rightarrow> nat \<Rightarrow> nat \<Rightarrow> buffer option" where
  "writeUInt32LE buf v off =
     (if v < 2 ^ 32 \<and> off + 4 \<le> length buf then Some (poke buf off (le_bytes 4 v)) else None)"

definition writeUInt16LE :: "buffer \<Rightarrow> nat \<Rightarrow> nat \<Rightarrow> buffer option" where
  "writeUInt16LE buf v off =
     (if v < 2 ^ 16 \<and> off + 2 \<le> length buf then Some (poke buf off (le_bytes 2 v)) else None)"

section \<open>The WAV encoder\<close>

definition SAMPLE_RATE :: nat where
  "SAMPLE_RATE = 16000"

definition CHANNELS :: nat where
  "CHANNELS = 1"

definition createWavHeader :: "nat \<Rightarrow> nat \<Rightarrow> nat \<Rightarrow> buffer option" where
  "createWavHeader sampleRate channels dataLength = do {
     let buffer = Buffer_alloc 44;
     let buffer = buffer_write buffer ''RIFF'' 0;
     buffer \<leftarrow> writeUInt32LE buffer (36 + dataLength) 4;
     let buffer = buffer_write buffer ''WAVE'' 8;
     let buffer = buffer_write buffer ''fmt '' 12;
     buffer \<leftarrow> writeUInt32LE buffer 16 16;
     buffer \<leftarrow> writeUInt16LE buffer 1 20;
     buffer \<leftarrow> writeUInt16LE buffer channels 22;
     buffer \<leftarrow> writeUInt32LE buffer sampleRate 24;
     buffer \<leftarrow> writeUInt32LE buffer (sampleRate * channels * 2) 28;
     buffer \<leftarrow> writeUInt16LE buffer (channels * 2) 32;
     buffer \<leftarrow> writeUInt16LE buffer 16 34;
     let buffer = buffer_write buffer ''data'' 36;
     buffer \<leftarrow> writeUInt32LE buffer dataLength 40;
     Some buffer
   }"

text \<open>
  \<open>Buffer.concat\<close> allocates the result and throws (\<open>None\<close>) when its length exceeds
  the largest buffer of the platform, \<open>buffer.constants.MAX_LENGTH\<close>.
\<close>

definition Buffer_concat :: "nat \<Rightarrow> buffer list \<Rightarrow> buffer option" where
  "Buffer_concat maxLength bufs =
     (if length (concat bufs) \<le> maxLength then Some (concat bufs) else None)"

text \<open>
  The body of the \<open>try\<close> block of \<open>saveWavFile\<close> up to the bytes handed to the file
  system, with the largest buffer length, the sample rate, the channel count and the
  frames as arguments where the source reads its globals.
\<close>

definition wavFile :: "nat \<Rightarrow> nat \<Rightarrow> nat \<Rightarrow> buffer list \<Rightarrow> buffer option" where
  "wavFile maxLength sampleRate channels frames = do {
     audioData \<leftarrow> Buffer_concat maxLength frames;
     let dataLength = length audioData;
     wavHeader \<leftarrow> createWavHeader sampleRate channels dataLength;
     Buffer_concat maxLength [wavHeader, audioData]
   }"

text \<open>Reading a WAV file back: the little-endian fields and the payload after the header.\<close>

definition le_value :: "byte list \<Rightarrow> nat" where
  "le_value bs = foldr (\<lambda>b acc. unat b + 256 * acc) bs 0"

definition readUInt32LE :: "buffer \<Rightarrow> nat \<Rightarrow> nat" where
  "readUInt32LE buf off = le_value (take 4 (drop off buf))"

definition readUInt16LE :: "buffer \<Rightarrow> nat \<Rightarrow> nat" where
  "readUInt16LE buf off = le_value (take 2 (drop off buf))"

definition wav_payload :: "buffer \<Rightarrow> buffer" where
  "wav_payload file = drop 44 file"

definition header_layout :: "nat \<Rightarrow> nat \<Rightarrow> nat \<Rightarrow> byte list" where
  "header_layout sampleRate channels dataLength =
     ascii ''RIFF'' @ le_bytes 4 (36 + dataLength) @ ascii ''WAVE'' @
     ascii ''fmt '' @ le_bytes 4 16 @ le_bytes 2 1 @ le_bytes 2 channels @
     le_bytes 4 sampleRate @ le_bytes 4 (sampleRate * channels * 2) @
     le_bytes 2 (channels * 2) @ le_bytes 2 16 @
     ascii ''data'' @ le_bytes 4 dataLength"

section \<open>The session of the command-line program\<close>

text \<open>
  What the program does to the outside world, in the order it does it.  Console lines
  carry the fixed part of their text.  A file written carries the time stamp of its
  name (the ISO time cut to the second, in \<open>notes_STAMP.md\<close> and
  \<open>recorded_audio_STAMP.wav\<close>) and its content; two writes with one stamp leave one
  file.
\<close>

datatype effect =
    ConsoleLog string
  | ConsoleError string
  | StdoutWrite string
  | OpenAIRequest string
  | WriteNotes string string
  | WriteWav string buffer
  | WsConnect
  | WsSendBinary buffer
  | WsSendText string
  | WsClose
  | MicStart
  | MicStop
  | ExitAfter nat int

datatype readyState = CONNECTING | OPEN | CLOSING | CLOSED

text \<open>
  The module-level variables.  \<open>ws\<close> is \<open>None\<close> for \<open>null\<close> and otherwise holds the
  \<open>readyState\<close> of the socket; \<open>micInstance\<close> and \<open>micInputStream\<close> say whether the
  variable is set.  \<open>handlersInstalled\<close> records that \<open>run\<close> has registered the socket
  and process handlers; \<open>trace\<close> is the history of effects.
\<close>

record state =
  micInstance :: bool
  micInputStream :: bool
  ws :: "readyState option"
  stopRequested :: bool
  recordedFrames :: "buffer list"
  fullTranscript :: string
  handlersInstalled :: bool
  trace :: "effect list"

text \<open>
  The collaborators the program calls.  A call whose outcome the program cannot know may
  answer differently each time: such a call is given the history so far.
  \<^item> \<open>JSON_parse\<close>: \<open>None\<close> when \<open>JSON.parse\<close> throws;
  \<^item> \<open>formatTimestamp_ok\<close>: whether \<open>formatTimestamp(t)\<close> returns (the product throws
    a TypeError for a value without a primitive, \<open>toISOString\<close> a RangeError for an
    invalid date);
  \<^item> \<open>Number_toString\<close>: the digits of a number;
  \<^item> \<open>MAX_LENGTH\<close>: \<open>buffer.constants.MAX_LENGTH\<close>;
  \<^item> \<open>now_stamp\<close>: \<open>new Date().toISOString().replace(/[:.]/g, "-").slice(0, 19)\<close> at the
    moment of the call;
  \<^item> \<open>openai_create\<close>: the text \<open>response.choices[0].message.content\<close> of the chat
    completion for a transcript, \<open>None\<close> when the call or the access throws;
  \<^item> \<open>writeFileSync_ok\<close>: whether \<open>fs.writeFileSync\<close> returns;
  \<^item> \<open>mic_open\<close>: how far the three microphone calls of \<open>startMicrophone\<close> get;
  \<^item> \<open>mic_stop_ok\<close>: whether \<open>micInstance.stop()\<close> returns.
\<close>

datatype mic_outcome = MicOk | MicThrows | GetAudioStreamThrows | StartThrows

record env =
  ASSEMBLYAI_API_KEY :: "string option"
  OPENAI_API_KEY :: "string option"
  JSON_parse :: "string \<Rightarrow> json option"
  formatTimestamp_ok :: "json option \<Rightarrow> bool"
  Number_toString :: "rat \<Rightarrow> string"
  MAX_LENGTH :: nat
  now_stamp :: "effect list \<Rightarrow> string"
  openai_create :: "effect list \<Rightarrow> string \<Rightarrow> string option"
  writeFileSync_ok :: "effect list \<Rightarrow> bool"
  mic_open :: "effect list \<Rightarrow> mic_outcome"
  mic_stop_ok :: "effect list \<Rightarrow> bool"

definition initial :: state where
  "initial = \<lparr> micInstance = False, micInputStream = False, ws = None,
               stopRequested = False, recordedFrames = [], fullTranscript = [],
               handlersInstalled = False, trace = [] \<rparr>"

definition emit :: "effect \<Rightarrow> state \<Rightarrow> state" where
  "emit e st = st\<lparr>trace := trace st @ [e]\<rparr>"

definition emits :: "effect list \<Rightarrow> state \<Rightarrow> state" where
  "emits es st = st\<lparr>trace := trace st @ es\<rparr>"

text \<open>\<open>process.env.X || d\<close>: an unset or empty variable gives the default.\<close>

definition or_default :: "string option \<Rightarrow> string \<Rightarrow> string" where
  "or_default v d = (case v of None \<Rightarrow> d | Some s \<Rightarrow> if s = [] then d else s)"

definition YOUR_ASSEMBLYAI_API_KEY :: "env \<Rightarrow> string" where
  "YOUR_ASSEMBLYAI_API_KEY env = or_default (ASSEMBLYAI_API_KEY env) ''YOUR_ASSEMBLYAI_API_KEY''"

definition openai_apiKey :: "env \<Rightarrow> string" where
  "openai_apiKey env = or_default (OPENAI_API_KEY env) ''YOUR_OPENAI_API_KEY''"

text \<open>String conversion of a value that may be \<open>undefined\<close>.\<close>

definition to_string :: "env \<Rightarrow> json option \<Rightarrow> string option" where
  "to_string env v =
     (case v of None \<Rightarrow> Some ''undefined'' | Some x \<Rightarrow> js_text (Number_toString env) x)"

definition saveWavFile :: "env \<Rightarrow> state \<Rightarrow> state" where
  "saveWavFile env st =
     (if length (recordedFrames st) = 0 then emit (ConsoleLog ''No audio data recorded.'') st
      else
        let stamp = now_stamp env (trace st) in
        (case wavFile (MAX_LENGTH env) SAMPLE_RATE CHANNELS (recordedFrames st) of
           None \<Rightarrow> emit (ConsoleError ''Error saving WAV file'') st
         | Some file \<Rightarrow>
             if writeFileSync_ok env (trace st)
             then emits [WriteWav stamp file, ConsoleLog ''Audio saved to'',
                         ConsoleLog ''Duration''] st
             else emit (ConsoleError ''Error saving WAV file'') st))"

definition generateNotesFromTranscript :: "env \<Rightarrow> string \<Rightarrow> state \<Rightarrow> state" where
  "generateNotesFromTranscript env transcript st =
     (if trim transcript = [] then emit (ConsoleLog ''No transcript to process.'') st
      else
        let st = emit (ConsoleLog ''Generating structured notes...'') st;
            response = openai_create env (trace st) transcript;
            st = emit (OpenAIRequest transcript) st
        in (case response of
              None \<Rightarrow> emit (ConsoleError ''Error generating notes'') st
            | Some notes \<Rightarrow>
                if writeFileSync_ok env (trace st)
                then emits [WriteNotes (now_stamp env (trace st)) notes,
                            ConsoleLog ''Generated Notes:'', ConsoleLog ''NaN'',
                            ConsoleLog notes, ConsoleLog ''NaN'', ConsoleLog ''Notes saved to''] st
                else emit (ConsoleError ''Error generating notes'') st))"

text \<open>
  \<open>cleanup\<close>.  Sending on an open socket and closing a socket do not throw in the
  \<open>ws\<close> library, so the \<open>catch\<close> around them has no branch here.
\<close>

definition cleanup :: "env \<Rightarrow> state \<Rightarrow> state" where
  "cleanup env st =
     (let st = st\<lparr>stopRequested := True\<rparr>;
          st = (if trim (fullTranscript st) \<noteq> []
                then generateNotesFromTranscript env (fullTranscript st) st else st);
          st = saveWavFile env st;
          st = (if micInstance st
                then (if mic_stop_ok env (trace st) then emit MicStop st
                      else emit (ConsoleError ''Error stopping microphone'') st)
                     \<lparr>micInstance := False\<rparr>
                else st);
          st = (case ws st of
                  None \<Rightarrow> st
                | Some rs \<Rightarrow>
                    if rs = OPEN \<or> rs = CONNECTING
                    then (let st = (if rs = OPEN
                                    then emits [ConsoleLog ''Sending termination message'',
                                                WsSendText ''{\"type\":\"Terminate\"}''] st
                                    else st)
                          in (emit WsClose st)\<lparr>ws := None\<rparr>)
                    else st)
      in emit (ConsoleLog ''Cleanup complete.'') st)"

text \<open>
  The handlers of the socket.  Each handler runs as one step: the model does not
  interleave.  In the program a handler that waits for the note generator is suspended
  there while other handlers run.  \<open>cleanup\<close> sets \<open>stopRequested\<close> before it waits, so
  no frame is recorded meanwhile, and the calls of the generator and the files written
  by each handler are those of the model; but \<open>cleanup\<close> reads \<open>micInstance\<close> and
  \<open>ws\<close> after the wait, so when another \<open>cleanup\<close> runs meanwhile, which of the two
  stops the microphone, sends \<open>Terminate\<close> and closes the socket can differ from the
  model.  No property below depends on those three effects.
\<close>

definition handling_error :: "state \<Rightarrow> state" where
  "handling_error st = emits [ConsoleError ''Error handling message'', ConsoleError ''Message data''] st"

definition ws_on_message :: "env \<Rightarrow> string \<Rightarrow> state \<Rightarrow> state" where
  "ws_on_message env message st =
     (case JSON_parse env message of
        None \<Rightarrow> handling_error st
      | Some data \<Rightarrow>
          if data = JNull then handling_error st
          else
            let msgType = member data ''type'' in
            if msgType = Some (JStr ''Begin'') then
              (if to_string env (member data ''id'') \<noteq> None \<and>
                  formatTimestamp_ok env (member data ''expires_at'')
               then emit (ConsoleLog ''Session began'') st
               else handling_error st)
            else if msgType = Some (JStr ''Turn'') then
              (let transcript = or_else (member data ''transcript'') (JStr '''');
                   formatted = member data ''turn_is_formatted''
               in if truthy formatted
                  then (let st = emit (StdoutWrite ''clear line'') st
                        in (case to_string env (Some transcript) of
                              None \<Rightarrow> handling_error st
                            | Some s \<Rightarrow>
                                (emit (ConsoleLog s) st)
                                  \<lparr>fullTranscript := fullTranscript st @ s @ '' ''\<rparr>))
                  else (case to_string env (Some transcript) of
                          None \<Rightarrow> handling_error st
                        | Some s \<Rightarrow> emit (StdoutWrite s) st))
            else if msgType = Some (JStr ''Termination'') then
              (if to_string env (member data ''audio_duration_seconds'') = None \<or>
                  to_string env (member data ''session_duration_seconds'') = None
               then handling_error st
               else
                 let st = emit (ConsoleLog ''Session Terminated'') st
                 in if trim (fullTranscript st) \<noteq> []
                    then generateNotesFromTranscript env (fullTranscript st) st else st)
            else st)"

definition ws_on_error :: "env \<Rightarrow> state \<Rightarrow> state" where
  "ws_on_error env st = cleanup env (emit (ConsoleError ''WebSocket Error'') st)"

definition ws_on_close :: "env \<Rightarrow> state \<Rightarrow> state" where
  "ws_on_close env st =
     (let st = emit (ConsoleLog ''WebSocket Disconnected'') st;
          st = (if trim (fullTranscript st) \<noteq> []
                then generateNotesFromTranscript env (fullTranscript st) st else st)
      in cleanup env st)"

text \<open>The handlers of the microphone stream.\<close>

definition mic_on_data :: "buffer \<Rightarrow> state \<Rightarrow> state" where
  "mic_on_data data st =
     (if ws st = Some OPEN \<and> \<not> stopRequested st
      then (emit (WsSendBinary data) st)\<lparr>recordedFrames := recordedFrames st @ [data]\<rparr>
      else st)"

definition mic_on_error :: "env \<Rightarrow> state \<Rightarrow> state" where
  "mic_on_error env st = cleanup env (emit (ConsoleError ''Microphone Error'') st)"

definition startMicrophone :: "env \<Rightarrow> state \<Rightarrow> state" where
  "startMicrophone env st =
     (case mic_open env (trace st) of
        MicOk \<Rightarrow>
          emits [MicStart, ConsoleLog ''Microphone stream opened successfully.'',
                 ConsoleLog ''Speak into your microphone. Press Ctrl+C to stop and generate notes.'']
            (st\<lparr>micInstance := True, micInputStream := True\<rparr>)
      | MicThrows \<Rightarrow>
          cleanup env (emit (ConsoleError ''Error opening microphone stream'') st)
      | GetAudioStreamThrows \<Rightarrow>
          cleanup env (emit (ConsoleError ''Error opening microphone stream'')
            (st\<lparr>micInstance := True\<rparr>))
      | StartThrows \<Rightarrow>
          cleanup env (emit (ConsoleError ''Error opening microphone stream'')
            (st\<lparr>micInstance := True, micInputStream := True\<rparr>)))"

definition ws_on_open :: "env \<Rightarrow> state \<Rightarrow> state" where
  "ws_on_open env st =
     startMicrophone env
       (emits [ConsoleLog ''WebSocket connection opened.'', ConsoleLog ''Connected to''] st)"

text \<open>The handlers of the process.\<close>

definition on_SIGINT :: "env \<Rightarrow> state \<Rightarrow> state" where
  "on_SIGINT env st =
     emit (ExitAfter 2000 0)
       (cleanup env (emit (ConsoleLog ''Ctrl+C received. Stopping and generating notes...'') st))"

definition on_SIGTERM :: "env \<Rightarrow> state \<Rightarrow> state" where
  "on_SIGTERM env st =
     emit (ExitAfter 2000 0)
       (cleanup env (emit (ConsoleLog ''Termination signal received. Stopping...'') st))"

definition on_uncaughtException :: "env \<Rightarrow> state \<Rightarrow> state" where
  "on_uncaughtException env st =
     emit (ExitAfter 2000 1) (cleanup env (emit (ConsoleError ''Uncaught exception'') st))"

definition run :: "env \<Rightarrow> state \<Rightarrow> state" where
  "run env st =
     (let st = emits [ConsoleLog ''Starting AssemblyAI real-time transcription...'',
                      ConsoleLog ''Audio will be saved to a WAV file when the session ends.'',
                      ConsoleLog ''Notes will be generated automatically when you stop recording.''] st
      in if YOUR_ASSEMBLYAI_API_KEY env = ''YOUR_ASSEMBLYAI_API_KEY''
         then emit (ConsoleError ''Please set your AssemblyAI API key via the ASSEMBLYAI_API_KEY environment variable.'') st
         else if openai_apiKey env = ''YOUR_OPENAI_API_KEY''
         then emit (ConsoleError ''Please set your OpenAI API key via the OPENAI_API_KEY environment variable.'') st
         else (emit WsConnect st)\<lparr>ws := Some CONNECTING, handlersInstalled := True\<rparr>)"

definition main :: "env \<Rightarrow> state" where
  "main env = run env (emit (ConsoleLog ''Voice-to-Notes Assistant Starting...'') initial)"

text \<open>
  The events of the three sources.  The library sets the socket's \<open>readyState\<close> to
  \<open>OPEN\<close> before it emits \<open>open\<close> and to \<open>CLOSED\<close> before it emits \<open>close\<close>;
  \<open>SocketState\<close> is any other change of it.  An event reaches a handler only once that
  handler is registered.
\<close>

datatype event =
    WsOpen
  | WsMessage string
  | WsError
  | WsClosed
  | SocketState readyState
  | MicData buffer
  | MicError
  | SIGINT
  | SIGTERM
  | UncaughtException

definition set_readyState :: "readyState \<Rightarrow> state \<Rightarrow> state" where
  "set_readyState rs st = st\<lparr>ws := map_option (\<lambda>_. rs) (ws st)\<rparr>"

fun dispatch :: "env \<Rightarrow> event \<Rightarrow> state \<Rightarrow> state" where
  "dispatch env WsOpen st = ws_on_open env (set_readyState OPEN st)"
| "dispatch env (WsMessage m) st = ws_on_message env m st"
| "dispatch env WsError st = ws_on_error env st"
| "dispatch env WsClosed st = ws_on_close env (set_readyState CLOSED st)"
| "dispatch env (SocketState rs) st = set_readyState rs st"
| "dispatch env (MicData d) st = (if micInputStream st then mic_on_data d st else st)"
| "dispatch env MicError st = (if micInputStream st then mic_on_error env st else st)"
| "dispatch env SIGINT st = on_SIGINT env st"
| "dispatch env SIGTERM st = on_SIGTERM env st"
| "dispatch env UncaughtException st = on_uncaughtException env st"

definition step :: "env \<Rightarrow> state \<Rightarrow> event \<Rightarrow> state" where
  "step env st ev = (if handlersInstalled st then dispatch env ev st else st)"

definition steps :: "env \<Rightarrow> state \<Rightarrow> event list \<Rightarrow> state" where
  "steps env st evs = foldl (step env) st evs"

text \<open>What a history holds.\<close>

fun notes_of :: "effect \<Rightarrow> string list" where
  "notes_of (WriteNotes stamp n) = [n]"
| "notes_of _ = []"

fun wavs_of :: "effect \<Rightarrow> buffer list" where
  "wavs_of (WriteWav stamp f) = [f]"
| "wavs_of _ = []"

fun requests_of :: "effect \<Rightarrow> string list" where
  "requests_of (OpenAIRequest t) = [t]"
| "requests_of _ = []"

fun frames_of :: "effect \<Rightarrow> buffer list" where
  "frames_of (WsSendBinary d) = [d]"
| "frames_of _ = []"

fun exits_of :: "effect \<Rightarrow> int list" where
  "exits_of (ExitAfter ms code) = [code]"
| "exits_of _ = []"

fun notes_stamp_of :: "effect \<Rightarrow> string list" where
  "notes_stamp_of (WriteNotes stamp n) = [stamp]"
| "notes_stamp_of _ = []"

fun wav_stamp_of :: "effect \<Rightarrow> string list" where
  "wav_stamp_of (WriteWav stamp f) = [stamp]"
| "wav_stamp_of _ = []"

text \<open>
  The stamps of the writes, one entry for each write; the files that result, one for
  each stamp; and the contents written.
\<close>

definition notes_stamps :: "effect list \<Rightarrow> string list" where
  "notes_stamps tr = concat (map notes_stamp_of tr)"

definition wav_stamps :: "effect list \<Rightarrow> string list" where
  "wav_stamps tr = concat (map wav_stamp_of tr)"

definition notes_files :: "effect list \<Rightarrow> string list" where
  "notes_files tr = remdups (notes_stamps tr)"

definition wav_files :: "effect list \<Rightarrow> string list" where
  "wav_files tr = remdups (wav_stamps tr)"

definition notes_written :: "effect list \<Rightarrow> string list" where
  "notes_written tr = concat (map notes_of tr)"

definition wavs_written :: "effect list \<Rightarrow> buffer list" where
  "wavs_written tr = concat (map wavs_of tr)"

definition generator_calls :: "effect list \<Rightarrow> string list" where
  "generator_calls tr = concat (map requests_of tr)"

definition frames_sent :: "effect list \<Rightarrow> buffer list" where
  "frames_sent tr = concat (map frames_of tr)"

text \<open>
  The status a Node process ends with: the argument of the first \<open>process.exit\<close> it
  reaches, and 0 when it ends because nothing is left to run (the program never assigns
  \<open>process.exitCode\<close>).
\<close>

definition exit_status :: "effect list \<Rightarrow> int" where
  "exit_status tr = (case concat (map exits_of tr) of [] \<Rightarrow> 0 | code # _ \<Rightarrow> code)"

text \<open>The module-level variables of a state, without its history.\<close>

definition session :: "state \<Rightarrow> bool \<times> bool \<times> readyState option \<times> bool \<times> buffer list \<times> string" where
  "session st = (micInstance st, micInputStream st, ws st, stopRequested st,
                 recordedFrames st, fullTranscript st)"

text \<open>The last two steps of \<open>cleanup\<close>, named for the proofs.\<close>

definition stop_mic :: "env \<Rightarrow> state \<Rightarrow> state" where
  "stop_mic env st =
     (if micInstance st
      then (if mic_stop_ok env (trace st) then emit MicStop st
            else emit (ConsoleError ''Error stopping microphone'') st)\<lparr>micInstance := False\<rparr>
      else st)"

definition close_ws :: "state \<Rightarrow> state" where
  "close_ws st =
     (case ws st of
        None \<Rightarrow> st
      | Some rs \<Rightarrow>
          if rs = OPEN \<or> rs = CONNECTING
          then (let st = (if rs = OPEN
                          then emits [ConsoleLog ''Sending termination message'',
                                      WsSendText ''{\"type\":\"Terminate\"}''] st
                          else st)
                in (emit WsClose st)\<lparr>ws := None\<rparr>)
          else st)"

text \<open>The frame that an event adds to the recording: the one \<open>mic_on_data\<close> accepts.\<close>

definition frame_added :: "event \<Rightarrow> state \<Rightarrow> buffer list" where
  "frame_added ev st =
     (case ev of
        MicData d \<Rightarrow> if micInputStream st \<and> ws st = Some OPEN \<and> \<not> stopRequested st then [d] else []
      | _ \<Rightarrow> [])"

text \<open>The messages of the transcription service, as parsed.\<close>

definition is_begin :: "json \<Rightarrow> bool" where
  "is_begin data = (data \<noteq> JNull \<and> member data ''type'' = Some (JStr ''Begin''))"

definition is_turn :: "json \<Rightarrow> string \<Rightarrow> bool \<Rightarrow> bool" where
  "is_turn data text final =
     (data \<noteq> JNull \<and> member data ''type'' = Some (JStr ''Turn'') \<and>
      member data ''transcript'' = Some (JStr text) \<and>
      member data ''turn_is_formatted'' = Some (JBool final))"

definition is_termination :: "json \<Rightarrow> bool" where
  "is_termination data =
     (data \<noteq> JNull \<and> member data ''type'' = Some (JStr ''Termination'') \<and>
      primitive (member data ''audio_duration_seconds'') \<and>
      primitive (member data ''session_duration_seconds''))"

definition known_type :: "json \<Rightarrow> bool" where
  "known_type data =
     (member data ''type'' = Some (JStr ''Begin'') \<or> member data ''type'' = Some (JStr ''Turn'') \<or>
      member data ''type'' = Some (JStr ''Termination''))"

definition final_text :: "(string \<times> bool) list \<Rightarrow> string" where
  "final_text turns = concat (map (\<lambda>(text, final). text @ '' '') (filter snd turns))"

subsection \<open>A concrete session\<close>

definition msg_begin :: string where
  "msg_begin = ''{\"type\":\"Begin\",\"id\":\"s1\",\"expires_at\":1700000000}''"

definition msg_turn1 :: string where
  "msg_turn1 = ''{\"type\":\"Turn\",\"transcript\":\"buy milk\",\"turn_is_formatted\":true}''"

definition msg_turn2 :: string where
  "msg_turn2 = ''{\"type\":\"Turn\",\"transcript\":\"call mom\",\"turn_is_formatted\":false}''"

definition msg_turn3 :: string where
  "msg_turn3 = ''{\"type\":\"Turn\",\"transcript\":\"call mom\",\"turn_is_formatted\":true}''"

definition msg_termination :: string where
  "msg_termination = ''{\"type\":\"Termination\",\"audio_duration_seconds\":3,\"session_duration_seconds\":4}''"

definition msg_ping :: string where
  "msg_ping = ''{\"type\":\"Ping\"}''"

definition msg_malformed :: string where
  "msg_malformed = ''{\"type\":''"

definition demo_parse :: "string \<Rightarrow> json option" where
  "demo_parse m =
     (if m = msg_begin
      then Some (JObj [(''type'', JStr ''Begin''), (''id'', JStr ''s1''), (''expires_at'', JNum 1700000000)])
      else if m = msg_turn1
      then Some (JObj [(''type'', JStr ''Turn''), (''transcript'', JStr ''buy milk''),
                       (''turn_is_formatted'', JBool True)])
      else if m = msg_turn2
      then Some (JObj [(''type'', JStr ''Turn''), (''transcript'', JStr ''call mom''),
                       (''turn_is_formatted'', JBool False)])
      else if m = msg_turn3
      then Some (JObj [(''type'', JStr ''Turn''), (''transcript'', JStr ''call mom''),
                       (''turn_is_formatted'', JBool True)])
      else if m = msg_termination
      then Some (JObj [(''type'', JStr ''Termination''), (''audio_duration_seconds'', JNum 3),
                       (''session_duration_seconds'', JNum 4)])
      else if m = msg_ping
      then Some (JObj [(''type'', JStr ''Ping'')])
      else None)"

text \<open>
  A clock that each call of the note generator advances by a second: the stamp depends
  on the number of calls made so far.
\<close>

definition demo_tick :: "nat \<Rightarrow> string" where
  "demo_tick n =
     (case n of
        0 \<Rightarrow> ''2024-05-01T10-00-00''
      | Suc 0 \<Rightarrow> ''2024-05-01T10-00-01''
      | Suc (Suc 0) \<Rightarrow> ''2024-05-01T10-00-02''
      | _ \<Rightarrow> ''2024-05-01T10-00-03'')"

definition demo_clock :: "effect list \<Rightarrow> string" where
  "demo_clock tr = demo_tick (length (concat (map requests_of tr)))"

definition demo_env :: env where
  "demo_env =
     \<lparr> ASSEMBLYAI_API_KEY = Some ''aai-key'', OPENAI_API_KEY = Some ''sk-key'',
       JSON_parse = demo_parse, formatTimestamp_ok = (\<lambda>_. True),
       Number_toString = (\<lambda>_. ''0''), MAX_LENGTH = 4294967296, now_stamp = demo_clock,
       openai_create = (\<lambda>_ _. Some ''- [ ] buy milk''),
       writeFileSync_ok = (\<lambda>_. True), mic_open = (\<lambda>_. MicOk), mic_stop_ok = (\<lambda>_. True) \<rparr>"

text \<open>A running session that has heard one final turn and recorded one frame.\<close>

definition demo_state :: state where
  "demo_state = \<lparr> micInstance = True, micInputStream = True, ws = Some OPEN,
                  stopRequested = False, recordedFrames = [[1, 2, 3, 4]],
                  fullTranscript = ''buy milk '', handlersInstalled = True, trace = [] \<rparr>"

section \<open>The HTTP server\<close>

text \<open>
  The database as the server itself builds it: users with a string id and the user name
  as received, notes, and the own properties of the \<open>tokens\<close> object.  \<open>tokens\<close> is
  an ordinary object, so a lookup that finds no own property continues in
  \<open>Object.prototype\<close>; the owner of a note is therefore either a user id or the member
  of \<open>Object.prototype\<close> found under the name given.
\<close>

datatype owner = Uid string | Inherited string

record user =
  user_id :: string
  username :: json
  passwordHash :: string

record stored_note =
  note_id :: string
  userId :: owner
  transcript :: json
  notes_field :: string
  createdAt :: nat

record db =
  db_users :: "user list"
  db_notes :: "stored_note list"
  db_tokens :: "string \<rightharpoonup> string"

definition empty_db :: db where
  "empty_db = \<lparr> db_users = [], db_notes = [], db_tokens = Map.empty \<rparr>"

record request =
  http_method :: string
  url :: string
  authorization :: "string option"
  body :: string

datatype payload =
    ErrorBody string
  | UserBody string json
  | TokenBody string
  | NoteBody stored_note
  | NotesBody "stored_note list"

text \<open>
  \<open>ConnectionDestroyed\<close>: the body grew beyond a million characters and \<open>parseBody\<close>
  destroyed the socket, so that what the handler sends afterwards reaches no one.
\<close>

datatype response = Response nat payload | ConnectionDestroyed

text \<open>
  What the runtime answers while one request is handled: \<open>JSON.parse\<close> (\<open>None\<close> when it
  throws), the hexadecimal SHA-256 digest, the digits of a number,
  \<open>crypto.randomUUID()\<close>, \<open>crypto.randomBytes(16).toString('hex')\<close>, \<open>Date.now()\<close>,
  and whether the \<open>fs.writeFileSync\<close> of \<open>saveDB\<close> returns.
\<close>

record runtime =
  parse :: "string \<Rightarrow> json option"
  sha256 :: "string \<Rightarrow> string"
  number_digits :: "rat \<Rightarrow> string"
  randomUUID :: string
  randomBytes :: string
  Date_now :: nat
  saveDB_ok :: bool

text \<open>\<open>a === b\<close> for a stored value and a value parsed from the request: two objects or arrays
  are never the same object.\<close>

fun strict_eq :: "json \<Rightarrow> json option \<Rightarrow> bool" where
  "strict_eq JNull (Some JNull) = True"
| "strict_eq (JBool a) (Some (JBool b)) = (a = b)"
| "strict_eq (JNum a) (Some (JNum b)) = (a = b)"
| "strict_eq (JStr a) (Some (JStr b)) = (a = b)"
| "strict_eq _ _ = False"

text \<open>\<open>s.replace(pat, rep)\<close> with a string pattern: the first occurrence only.\<close>

fun replace_first :: "string \<Rightarrow> string \<Rightarrow> string \<Rightarrow> string" where
  "replace_first pat rep [] = (if pat = [] then rep else [])"
| "replace_first pat rep (c # cs) =
     (if take (length pat) (c # cs) = pat then rep @ drop (length pat) (c # cs)
      else c # replace_first pat rep cs)"

definition Object_prototype :: "string list" where
  "Object_prototype =
     [''constructor'', ''__defineGetter__'', ''__defineSetter__'', ''hasOwnProperty'',
      ''__lookupGetter__'', ''__lookupSetter__'', ''isPrototypeOf'', ''propertyIsEnumerable'',
      ''toString'', ''valueOf'', ''__proto__'', ''toLocaleString'']"

text \<open>\<open>db.tokens[token]\<close>, with \<open>None\<close> for \<open>undefined\<close>.\<close>

definition tokens_get :: "db \<Rightarrow> string \<Rightarrow> owner option" where
  "tokens_get d token =
     (case db_tokens d token of
        Some uid \<Rightarrow> Some (Uid uid)
      | None \<Rightarrow> if token \<in> set Object_prototype then Some (Inherited token) else None)"

text \<open>\<open>db.tokens[token] = uid\<close>: assigning a string to \<open>__proto__\<close> changes nothing.\<close>

definition tokens_set :: "db \<Rightarrow> string \<Rightarrow> string \<Rightarrow> db" where
  "tokens_set d token uid =
     (if token = ''__proto__'' then d else d\<lparr>db_tokens := (db_tokens d)(token \<mapsto> uid)\<rparr>)"

fun owner_truthy :: "owner option \<Rightarrow> bool" where
  "owner_truthy None = False"
| "owner_truthy (Some (Uid uid)) = (uid \<noteq> [])"
| "owner_truthy (Some (Inherited name)) = True"

text \<open>
  \<open>parseBody\<close>: \<open>body\<close> is the text that has arrived when the request ends.  Beyond a
  million characters the socket is destroyed, and the promise is settled all the same:
  the handler goes on and changes the database, but its answer is lost (\<open>reply\<close>).
\<close>

datatype parsed = Resolved json | Rejected

definition parseBody :: "runtime \<Rightarrow> request \<Rightarrow> parsed" where
  "parseBody rt req =
     (if body req = [] then Resolved (JObj [])
      else (case parse rt (body req) of None \<Rightarrow> Rejected | Some v \<Rightarrow> Resolved v))"

definition reply :: "request \<Rightarrow> response \<times> db \<Rightarrow> response \<times> db" where
  "reply req out =
     (if length (body req) > 1000000 then (ConnectionDestroyed, snd out) else out)"

text \<open>\<open>hashPassword\<close>: the digest takes a string; any other value makes \<open>update\<close> throw.\<close>

definition hashPassword :: "runtime \<Rightarrow> json option \<Rightarrow> string option" where
  "hashPassword rt pw = (case pw of Some (JStr s) \<Rightarrow> Some (sha256 rt s) | _ \<Rightarrow> None)"

text \<open>\<open>requireAuth\<close>: \<open>None\<close> when it has answered 401.\<close>

definition requireAuth :: "db \<Rightarrow> request \<Rightarrow> owner option" where
  "requireAuth d req =
     (let auth = (case authorization req of None \<Rightarrow> [] | Some a \<Rightarrow> a);
          token = replace_first ''Bearer '' [] auth;
          userId = tokens_get d token
      in if \<not> owner_truthy userId then None else userId)"

definition server_error :: response where
  "server_error = Response 500 (ErrorBody ''server error'')"

definition register :: "runtime \<Rightarrow> request \<Rightarrow> db \<Rightarrow> response \<times> db" where
  "register rt req d = reply req
     (case parseBody rt req of
        Rejected \<Rightarrow> (server_error, d)
      | Resolved b \<Rightarrow>
          if b = JNull then (server_error, d)
          else
            let username = member b ''username''; password = member b ''password'' in
            if \<not> truthy username \<or> \<not> truthy password
            then (Response 400 (ErrorBody ''username and password required''), d)
            else if find (\<lambda>u. strict_eq (user.username u) username) (db_users d) \<noteq> None
            then (Response 409 (ErrorBody ''user exists''), d)
            else
              (case (username, hashPassword rt password) of
                 (Some name, Some hash) \<Rightarrow>
                   let user = \<lparr> user_id = randomUUID rt, username = name, passwordHash = hash \<rparr>;
                       d = d\<lparr>db_users := db_users d @ [user]\<rparr>
                   in if saveDB_ok rt
                      then (Response 201 (UserBody (user_id user) (user.username user)), d)
                      else (server_error, d)
               | _ \<Rightarrow> (server_error, d)))"

definition login :: "runtime \<Rightarrow> request \<Rightarrow> db \<Rightarrow> response \<times> db" where
  "login rt req d = reply req
     (case parseBody rt req of
        Rejected \<Rightarrow> (server_error, d)
      | Resolved b \<Rightarrow>
          if b = JNull then (server_error, d)
          else
            let username = member b ''username''; password = member b ''password'' in
            (case find (\<lambda>u. strict_eq (user.username u) username) (db_users d) of
               None \<Rightarrow> (Response 401 (ErrorBody ''invalid credentials''), d)
             | Some user \<Rightarrow>
                 (case hashPassword rt password of
                    None \<Rightarrow> (server_error, d)
                  | Some hash \<Rightarrow>
                      if passwordHash user \<noteq> hash
                      then (Response 401 (ErrorBody ''invalid credentials''), d)
                      else
                        let token = randomBytes rt;
                            d = tokens_set d token (user_id user)
                        in if saveDB_ok rt then (Response 200 (TokenBody token), d)
                           else (server_error, d))))"

definition post_notes :: "runtime \<Rightarrow> request \<Rightarrow> db \<Rightarrow> response \<times> db" where
  "post_notes rt req d =
     (case requireAuth d req of
        None \<Rightarrow> (Response 401 (ErrorBody ''Unauthorized''), d)
      | Some who \<Rightarrow> reply req
          (case parseBody rt req of
             Rejected \<Rightarrow> (server_error, d)
           | Resolved b \<Rightarrow>
               if b = JNull then (server_error, d)
               else
                 let transcript = member b ''transcript'' in
                 (case transcript of
                    None \<Rightarrow> (Response 400 (ErrorBody ''transcript required''), d)
                  | Some v \<Rightarrow>
                      if \<not> truthy transcript
                      then (Response 400 (ErrorBody ''transcript required''), d)
                      else
                        (case js_text (number_digits rt) v of
                           None \<Rightarrow> (server_error, d)
                         | Some s \<Rightarrow>
                             let notes = ''Notes for: '' @ s;
                                 note = \<lparr> note_id = randomUUID rt, userId = who,
                                          transcript = v, notes_field = notes,
                                          createdAt = Date_now rt \<rparr>;
                                 d = d\<lparr>db_notes := db_notes d @ [note]\<rparr>
                             in if saveDB_ok rt then (Response 201 (NoteBody note), d)
                                else (server_error, d)))))"

definition get_notes :: "request \<Rightarrow> db \<Rightarrow> response \<times> db" where
  "get_notes req d =
     (case requireAuth d req of
        None \<Rightarrow> (Response 401 (ErrorBody ''Unauthorized''), d)
      | Some who \<Rightarrow>
          let userNotes = filter (\<lambda>n. userId n = who) (db_notes d)
          in (Response 200 (NotesBody userNotes), d))"

text \<open>
  \<open>handleRequest\<close>: the four routes in the order of the source, then 404.  The bodies of
  the routes are the definitions above; after the body of the request has arrived each
  runs without interruption.
\<close>

definition handleRequest :: "runtime \<Rightarrow> request \<Rightarrow> db \<Rightarrow> response \<times> db" where
  "handleRequest rt req d =
     (if http_method req = ''POST'' \<and> url req = ''/register'' then register rt req d
      else if http_method req = ''POST'' \<and> url req = ''/login'' then login rt req d
      else if http_method req = ''POST'' \<and> url req = ''/notes'' then post_notes rt req d
      else if http_method req = ''GET'' \<and> url req = ''/notes'' then get_notes req d
      else (Response 404 (ErrorBody ''Not found''), d))"

subsection \<open>A concrete exchange\<close>

definition body_register :: string where
  "body_register = ''{\"username\":\"a\",\"password\":\"p\"}''"

definition body_note :: string where
  "body_note = ''{\"transcript\":\"x\"}''"

definition demo_body_parse :: "string \<Rightarrow> json option" where
  "demo_body_parse b =
     (if b = body_register then Some (JObj [(''username'', JStr ''a''), (''password'', JStr ''p'')])
      else if b = body_note then Some (JObj [(''transcript'', JStr ''x'')])
      else if b = ''{}'' then Some (JObj [])
      else None)"

text \<open>The digest is a stand-in; the identifiers are those of one possible run.\<close>

definition demo_runtime :: runtime where
  "demo_runtime =
     \<lparr> parse = demo_body_parse, sha256 = (\<lambda>s. ''sha256:'' @ s),
       number_digits = (\<lambda>_. ''0''),
       randomUUID = ''7d1c7c1e-0000-4000-8000-000000000001'',
       randomBytes = ''00112233445566778899aabbccddeeff'',
       Date_now = 1700000000000, saveDB_ok = True \<rparr>"

definition post :: "string \<Rightarrow> string option \<Rightarrow> string \<Rightarrow> request" where
  "post path auth b = \<lparr> http_method = ''POST'', url = path, authorization = auth, body = b \<rparr>"

definition get :: "string \<Rightarrow> string option \<Rightarrow> request" where
  "get path auth = \<lparr> http_method = ''GET'', url = path, authorization = auth, body = [] \<rparr>"

text \<open>Two users, three notes, and the token of the first user.\<close>

definition demo_db :: db where
  "demo_db =
     \<lparr> db_users = [\<lparr> user_id = ''u1'', username = JStr ''a'', passwordHash = ''sha256:p'' \<rparr>,
                   \<lparr> user_id = ''u2'', username = JStr ''b'', passwordHash = ''sha256:q'' \<rparr>],
       db_notes = [\<lparr> note_id = ''n1'', userId = Uid ''u1'', transcript = JStr ''x'',
                      notes_field = ''Notes for: x'', createdAt = 1 \<rparr>,
                   \<lparr> note_id = ''n2'', userId = Uid ''u2'', transcript = JStr ''y'',
                      notes_field = ''Notes for: y'', createdAt = 2 \<rparr>,
                   \<lparr> note_id = ''n3'', userId = Uid ''u1'', transcript = JStr ''z'',
                      notes_field = ''Notes for: z'', createdAt = 3 \<rparr>],
       db_tokens = [''t1'' \<mapsto> ''u1''] \<rparr>"

section \<open>Properties\<close>

lemma le_bytes4:
  "le_bytes 4 v = [word_of_nat v, word_of_nat (v div 256), word_of_nat (v div 256 div 256),
                   word_of_nat (v div 256 div 256 div 256)]"
proof -
  have e: "(4::nat) = Suc (Suc (Suc (Suc 0)))" by simp
  show ?thesis by (subst e) simp
qed

lemma le_bytes2: "le_bytes 2 v = [word_of_nat v, word_of_nat (v div 256)]"
  by (simp add: numeral_2_eq_2)

lemma length_le_bytes [simp]: "length (le_bytes k v) = k"
  by (induction k arbitrary: v) simp_all

lemma le_value_le_bytes: "v < 256 ^ k \<Longrightarrow> le_value (le_bytes k v) = v"
proof (induction k arbitrary: v)
  case 0
  then show ?case by (simp add: le_value_def)
next
  case (Suc k)
  from Suc.prems have "v div 256 < 256 ^ k"
    by (simp add: less_mult_imp_div_less mult.commute)
  then have "le_value (le_bytes k (v div 256)) = v div 256"
    by (rule Suc.IH)
  then show ?case
    by (simp add: le_value_def unat_of_nat)
qed

lemma alloc44: "Buffer_alloc 44 = [0,0,0,0, 0,0,0,0, 0,0,0,0, 0,0,0,0, 0,0,0,0, 0,0,0,0,
   0,0,0,0, 0,0,0,0, 0,0,0,0, 0,0,0,0, 0,0,0,0]"
  unfolding Buffer_alloc_def by code_simp

lemma createWavHeader_layout:
  assumes "36 + L < 2 ^ 32" "C * 2 < 2 ^ 16" "R < 2 ^ 32" "R * C * 2 < 2 ^ 32"
  shows "createWavHeader R C L = Some (header_layout R C L)"
  using assms
  by (simp add: createWavHeader_def header_layout_def writeUInt32LE_def writeUInt16LE_def
      buffer_write_def poke_def alloc44 le_bytes4 le_bytes2 ascii_def)

lemma createWavHeader_too_long:
  assumes "2 ^ 32 \<le> 36 + L"
  shows "createWavHeader R C L = None"
  using assms
  by (simp add: createWavHeader_def writeUInt32LE_def)

lemma length_ascii [simp]: "length (ascii s) = length s"
  by (simp add: ascii_def)

lemma length_header_layout: "length (header_layout R C L) = 44"
  by (simp add: header_layout_def)

lemma trace_emit [simp]: "trace (emit e st) = trace st @ [e]"
  by (simp add: emit_def)

lemma trace_emits [simp]: "trace (emits es st) = trace st @ es"
  by (simp add: emits_def)

lemma emit_fields [simp]:
  "micInstance (emit e st) = micInstance st"
  "micInputStream (emit e st) = micInputStream st"
  "ws (emit e st) = ws st"
  "stopRequested (emit e st) = stopRequested st"
  "recordedFrames (emit e st) = recordedFrames st"
  "fullTranscript (emit e st) = fullTranscript st"
  "handlersInstalled (emit e st) = handlersInstalled st"
  by (simp_all add: emit_def)

lemma emits_fields [simp]:
  "micInstance (emits es st) = micInstance st"
  "micInputStream (emits es st) = micInputStream st"
  "ws (emits es st) = ws st"
  "stopRequested (emits es st) = stopRequested st"
  "recordedFrames (emits es st) = recordedFrames st"
  "fullTranscript (emits es st) = fullTranscript st"
  "handlersInstalled (emits es st) = handlersInstalled st"
  by (simp_all add: emits_def)

lemma proj_append [simp]:
  "notes_written (a @ b) = notes_written a @ notes_written b"
  "wavs_written (a @ b) = wavs_written a @ wavs_written b"
  "generator_calls (a @ b) = generator_calls a @ generator_calls b"
  "frames_sent (a @ b) = frames_sent a @ frames_sent b"
  "notes_stamps (a @ b) = notes_stamps a @ notes_stamps b"
  "wav_stamps (a @ b) = wav_stamps a @ wav_stamps b"
  by (simp_all add: notes_written_def wavs_written_def generator_calls_def frames_sent_def
      notes_stamps_def wav_stamps_def)

lemma proj_Nil [simp]:
  "notes_written [] = []" "wavs_written [] = []" "generator_calls [] = []" "frames_sent [] = []"
  "notes_stamps [] = []" "wav_stamps [] = []"
  by (simp_all add: notes_written_def wavs_written_def generator_calls_def frames_sent_def
      notes_stamps_def wav_stamps_def)

lemma proj_Cons [simp]:
  "notes_written (e # es) = notes_of e @ notes_written es"
  "wavs_written (e # es) = wavs_of e @ wavs_written es"
  "generator_calls (e # es) = requests_of e @ generator_calls es"
  "frames_sent (e # es) = frames_of e @ frames_sent es"
  "notes_stamps (e # es) = notes_stamp_of e @ notes_stamps es"
  "wav_stamps (e # es) = wav_stamp_of e @ wav_stamps es"
  by (simp_all add: notes_written_def wavs_written_def generator_calls_def frames_sent_def
      notes_stamps_def wav_stamps_def)

lemma generateNotes_fields [simp]:
  "micInstance (generateNotesFromTranscript env t st) = micInstance st"
  "micInputStream (generateNotesFromTranscript env t st) = micInputStream st"
  "ws (generateNotesFromTranscript env t st) = ws st"
  "stopRequested (generateNotesFromTranscript env t st) = stopRequested st"
  "recordedFrames (generateNotesFromTranscript env t st) = recordedFrames st"
  "fullTranscript (generateNotesFromTranscript env t st) = fullTranscript st"
  "handlersInstalled (generateNotesFromTranscript env t st) = handlersInstalled st"
  by (simp_all add: generateNotesFromTranscript_def Let_def split: option.splits)

lemma saveWavFile_fields [simp]:
  "micInstance (saveWavFile env st) = micInstance st"
  "micInputStream (saveWavFile env st) = micInputStream st"
  "ws (saveWavFile env st) = ws st"
  "stopRequested (saveWavFile env st) = stopRequested st"
  "recordedFrames (saveWavFile env st) = recordedFrames st"
  "fullTranscript (saveWavFile env st) = fullTranscript st"
  "handlersInstalled (saveWavFile env st) = handlersInstalled st"
  by (simp_all add: saveWavFile_def Let_def split: option.splits)

lemma generateNotes_frames_sent [simp]:
  "frames_sent (trace (generateNotesFromTranscript env t st)) = frames_sent (trace st)"
  by (simp add: generateNotesFromTranscript_def Let_def split: option.splits)

lemma saveWavFile_frames_sent [simp]:
  "frames_sent (trace (saveWavFile env st)) = frames_sent (trace st)"
  by (simp add: saveWavFile_def Let_def split: option.splits)

lemma generateNotes_wavs [simp]:
  "wavs_written (trace (generateNotesFromTranscript env t st)) = wavs_written (trace st)"
  "wav_stamps (trace (generateNotesFromTranscript env t st)) = wav_stamps (trace st)"
  by (simp_all add: generateNotesFromTranscript_def Let_def split: option.splits)

lemma saveWavFile_notes [simp]:
  "notes_written (trace (saveWavFile env st)) = notes_written (trace st)"
  "notes_stamps (trace (saveWavFile env st)) = notes_stamps (trace st)"
  "generator_calls (trace (saveWavFile env st)) = generator_calls (trace st)"
  by (simp_all add: saveWavFile_def Let_def split: option.splits)

lemma generateNotes_calls:
  "generator_calls (trace (generateNotesFromTranscript env t st)) =
     generator_calls (trace st) @ (if trim t = [] then [] else [t])"
  by (simp add: generateNotesFromTranscript_def Let_def split: option.splits)

lemma generateNotes_written:
  assumes "\<forall>tr. openai_create env tr t \<noteq> None" "\<forall>tr. writeFileSync_ok env tr" "trim t \<noteq> []"
  shows "length (notes_written (trace (generateNotesFromTranscript env t st))) =
           length (notes_written (trace st)) + 1"
  using assms
  by (auto simp add: generateNotesFromTranscript_def Let_def split: option.splits)

lemma generateNotes_stamps:
  assumes "\<forall>tr. openai_create env tr t \<noteq> None" "\<forall>tr. writeFileSync_ok env tr" "trim t \<noteq> []"
  shows "notes_stamps (trace (generateNotesFromTranscript env t st)) =
           notes_stamps (trace st) @
             [now_stamp env (trace st @ [ConsoleLog ''Generating structured notes...'', OpenAIRequest t])]"
  using assms
  by (auto simp add: generateNotesFromTranscript_def Let_def split: option.splits)

lemma wavFile_in_bounds:
  assumes "36 + length (concat frames) < 2 ^ 32" "C * 2 < 2 ^ 16" "R < 2 ^ 32" "R * C * 2 < 2 ^ 32"
    "44 + length (concat frames) \<le> maxLength"
  shows "wavFile maxLength R C frames =
           Some (header_layout R C (length (concat frames)) @ concat frames)"
  using assms
  by (simp add: wavFile_def Buffer_concat_def Let_def createWavHeader_layout length_header_layout)

lemma saveWavFile_written:
  assumes "recordedFrames st \<noteq> []" "36 + length (concat (recordedFrames st)) < 2 ^ 32"
    "44 + length (concat (recordedFrames st)) \<le> MAX_LENGTH env"
    "writeFileSync_ok env (trace st)"
  shows "wavs_written (trace (saveWavFile env st)) =
           wavs_written (trace st) @
             [header_layout 16000 1 (length (concat (recordedFrames st))) @ concat (recordedFrames st)]"
    and "wav_stamps (trace (saveWavFile env st)) = wav_stamps (trace st) @ [now_stamp env (trace st)]"
  using assms
  by (simp_all add: saveWavFile_def SAMPLE_RATE_def CHANNELS_def wavFile_in_bounds Let_def)

lemma cleanup_steps:
  "cleanup env st =
     emit (ConsoleLog ''Cleanup complete.'')
       (close_ws (stop_mic env (saveWavFile env
          (if trim (fullTranscript st) \<noteq> []
           then generateNotesFromTranscript env (fullTranscript st) (st\<lparr>stopRequested := True\<rparr>)
           else st\<lparr>stopRequested := True\<rparr>))))"
  by (simp add: cleanup_def stop_mic_def close_ws_def Let_def split: option.splits)

lemma stop_mic_fields [simp]:
  "micInputStream (stop_mic env st) = micInputStream st"
  "ws (stop_mic env st) = ws st"
  "stopRequested (stop_mic env st) = stopRequested st"
  "recordedFrames (stop_mic env st) = recordedFrames st"
  "fullTranscript (stop_mic env st) = fullTranscript st"
  "handlersInstalled (stop_mic env st) = handlersInstalled st"
  "frames_sent (trace (stop_mic env st)) = frames_sent (trace st)"
  "notes_written (trace (stop_mic env st)) = notes_written (trace st)"
  "wavs_written (trace (stop_mic env st)) = wavs_written (trace st)"
  "notes_stamps (trace (stop_mic env st)) = notes_stamps (trace st)"
  "wav_stamps (trace (stop_mic env st)) = wav_stamps (trace st)"
  "generator_calls (trace (stop_mic env st)) = generator_calls (trace st)"
  by (simp_all add: stop_mic_def)

lemma close_ws_fields [simp]:
  "micInputStream (close_ws st) = micInputStream st"
  "micInstance (close_ws st) = micInstance st"
  "stopRequested (close_ws st) = stopRequested st"
  "recordedFrames (close_ws st) = recordedFrames st"
  "fullTranscript (close_ws st) = fullTranscript st"
  "handlersInstalled (close_ws st) = handlersInstalled st"
  "frames_sent (trace (close_ws st)) = frames_sent (trace st)"
  "notes_written (trace (close_ws st)) = notes_written (trace st)"
  "wavs_written (trace (close_ws st)) = wavs_written (trace st)"
  "notes_stamps (trace (close_ws st)) = notes_stamps (trace st)"
  "wav_stamps (trace (close_ws st)) = wav_stamps (trace st)"
  "generator_calls (trace (close_ws st)) = generator_calls (trace st)"
  by (simp_all add: close_ws_def Let_def split: option.splits)

lemma cleanup_fields [simp]:
  "micInputStream (cleanup env st) = micInputStream st"
  "stopRequested (cleanup env st) = True"
  "recordedFrames (cleanup env st) = recordedFrames st"
  "fullTranscript (cleanup env st) = fullTranscript st"
  "handlersInstalled (cleanup env st) = handlersInstalled st"
  "frames_sent (trace (cleanup env st)) = frames_sent (trace st)"
  by (simp_all add: cleanup_steps)

lemma cleanup_calls:
  "generator_calls (trace (cleanup env st)) =
     generator_calls (trace st) @ (if trim (fullTranscript st) = [] then [] else [fullTranscript st])"
  by (simp add: cleanup_steps generateNotes_calls)

lemma cleanup_written:
  assumes "\<forall>tr t. openai_create env tr t \<noteq> None" "\<forall>tr. writeFileSync_ok env tr"
    "trim (fullTranscript st) \<noteq> []"
    "recordedFrames st \<noteq> []" "36 + length (concat (recordedFrames st)) < 2 ^ 32"
    "44 + length (concat (recordedFrames st)) \<le> MAX_LENGTH env"
  shows "length (notes_written (trace (cleanup env st))) = length (notes_written (trace st)) + 1"
    and "length (wavs_written (trace (cleanup env st))) = length (wavs_written (trace st)) + 1"
  using assms
  by (simp_all add: cleanup_steps generateNotes_written saveWavFile_written)

lemma cleanup_stamps:
  assumes "\<forall>tr t. openai_create env tr t \<noteq> None" "\<forall>tr. writeFileSync_ok env tr"
    "trim (fullTranscript st) \<noteq> []"
    "recordedFrames st \<noteq> []" "36 + length (concat (recordedFrames st)) < 2 ^ 32"
    "44 + length (concat (recordedFrames st)) \<le> MAX_LENGTH env"
  shows "notes_stamps (trace (cleanup env st)) =
           notes_stamps (trace st) @
             [now_stamp env (trace st @ [ConsoleLog ''Generating structured notes...'',
                                         OpenAIRequest (fullTranscript st)])]"
    and "wav_stamps (trace (cleanup env st)) =
           wav_stamps (trace st) @
             [now_stamp env (trace (generateNotesFromTranscript env (fullTranscript st)
                                      (st\<lparr>stopRequested := True\<rparr>)))]"
  using assms
  by (simp_all add: cleanup_steps generateNotes_stamps saveWavFile_written)

text \<open>The history only grows.\<close>

lemma grows_emit [simp]:
  "prefix (trace st) (trace (emit e st))" "prefix (trace st) (trace (emits es st))"
  by simp_all

lemma generateNotes_grows:
  "prefix (trace st) (trace (generateNotesFromTranscript env t st))"
  by (simp add: generateNotesFromTranscript_def Let_def split: option.splits)

lemma saveWavFile_grows: "prefix (trace st) (trace (saveWavFile env st))"
  by (simp add: saveWavFile_def Let_def split: option.splits)

lemma stop_mic_grows: "prefix (trace st) (trace (stop_mic env st))"
  by (simp add: stop_mic_def)

lemma close_ws_grows: "prefix (trace st) (trace (close_ws st))"
  by (simp add: close_ws_def Let_def split: option.splits)

lemma cleanup_grows: "prefix (trace st) (trace (cleanup env st))"
proof -
  let ?s0 = "st\<lparr>stopRequested := True\<rparr>"
  let ?s1 = "if trim (fullTranscript st) \<noteq> []
             then generateNotesFromTranscript env (fullTranscript st) ?s0 else ?s0"
  have "prefix (trace st) (trace ?s1)"
    using generateNotes_grows [of ?s0 env "fullTranscript st"] by simp
  also have "prefix (trace ?s1) (trace (saveWavFile env ?s1))"
    by (rule saveWavFile_grows)
  also have "prefix \<dots> (trace (stop_mic env (saveWavFile env ?s1)))"
    by (rule stop_mic_grows)
  also have "prefix \<dots> (trace (close_ws (stop_mic env (saveWavFile env ?s1))))"
    by (rule close_ws_grows)
  also have "prefix \<dots> (trace (cleanup env st))"
    by (simp add: cleanup_steps)
  finally show ?thesis .
qed

lemma demo_simps:
  "JSON_parse demo_env = demo_parse"
  "openai_create demo_env tr t = Some ''- [ ] buy milk''"
  "writeFileSync_ok demo_env tr"
  "mic_open demo_env tr = MicOk"
  "mic_stop_ok demo_env tr"
  "formatTimestamp_ok demo_env v"
  "now_stamp demo_env = demo_clock"
  "MAX_LENGTH demo_env = 4294967296"
  by (simp_all add: demo_env_def)

lemma primitive_to_string: "primitive v \<Longrightarrow> to_string env v \<noteq> None"
proof (cases v)
  case None
  then show ?thesis by (simp add: to_string_def)
next
  case (Some x)
  assume "primitive v"
  with Some show ?thesis
    by (cases x) (simp_all add: to_string_def)
qed

lemma trim_demo: "trim ''buy milk '' \<noteq> []"
  by (simp add: trim_def is_space_def)

lemma dispatch_cleanup_written:
  assumes "\<forall>tr t. openai_create env tr t \<noteq> None" "\<forall>tr. writeFileSync_ok env tr"
    "trim (fullTranscript st) \<noteq> []"
    "recordedFrames st \<noteq> []" "36 + length (concat (recordedFrames st)) < 2 ^ 32"
    "44 + length (concat (recordedFrames st)) \<le> MAX_LENGTH env"
    "ev \<in> {WsError, SIGINT, SIGTERM, UncaughtException}"
  shows "length (notes_written (trace (dispatch env ev st))) = length (notes_written (trace st)) + 1
       \<and> length (wavs_written (trace (dispatch env ev st))) = length (wavs_written (trace st)) + 1"
  using assms
  by (auto simp add: ws_on_error_def on_SIGINT_def on_SIGTERM_def on_uncaughtException_def
      cleanup_written)

lemma set_readyState_fields [simp]:
  "micInstance (set_readyState rs st) = micInstance st"
  "micInputStream (set_readyState rs st) = micInputStream st"
  "stopRequested (set_readyState rs st) = stopRequested st"
  "recordedFrames (set_readyState rs st) = recordedFrames st"
  "fullTranscript (set_readyState rs st) = fullTranscript st"
  "handlersInstalled (set_readyState rs st) = handlersInstalled st"
  "trace (set_readyState rs st) = trace st"
  by (simp_all add: set_readyState_def)

lemma close_written:
  assumes "\<forall>tr t. openai_create env tr t \<noteq> None" "\<forall>tr. writeFileSync_ok env tr"
    "trim (fullTranscript st) \<noteq> []"
    "recordedFrames st \<noteq> []" "36 + length (concat (recordedFrames st)) < 2 ^ 32"
    "44 + length (concat (recordedFrames st)) \<le> MAX_LENGTH env"
  shows "length (notes_written (trace (dispatch env WsClosed st))) = length (notes_written (trace st)) + 2
       \<and> length (wavs_written (trace (dispatch env WsClosed st))) = length (wavs_written (trace st)) + 1"
  using assms
  by (simp add: ws_on_close_def Let_def cleanup_written generateNotes_written)

lemma termination_written:
  assumes "\<forall>tr t. openai_create env tr t \<noteq> None" "\<forall>tr. writeFileSync_ok env tr"
    "trim (fullTranscript st) \<noteq> []"
    "JSON_parse env m = Some data" "is_termination data"
  shows "length (notes_written (trace (dispatch env (WsMessage m) st))) = length (notes_written (trace st)) + 1
       \<and> wavs_written (trace (dispatch env (WsMessage m) st)) = wavs_written (trace st)"
  using assms
  by (simp add: ws_on_message_def is_termination_def Let_def generateNotes_written
      primitive_to_string)

lemma demo_state_simps:
  "fullTranscript demo_state = ''buy milk ''" "recordedFrames demo_state = [[1, 2, 3, 4]]"
  "handlersInstalled demo_state" "trace demo_state = []" "ws demo_state = Some OPEN"
  "micInstance demo_state" "micInputStream demo_state" "\<not> stopRequested demo_state"
  by (simp_all add: demo_state_def)

lemma demo_parse_termination:
  "demo_parse msg_termination =
     Some (JObj [(''type'', JStr ''Termination''), (''audio_duration_seconds'', JNum 3),
                 (''session_duration_seconds'', JNum 4)])"
  by (simp add: demo_parse_def msg_termination_def msg_begin_def msg_turn1_def msg_turn2_def
      msg_turn3_def)

text \<open>
  Claim C2 (as amended).  \<open>cleanup\<close> has no guard against a second note generation (the
  program has no \<open>notesGenerated\<close> flag): every call on a session whose transcript is not
  blank calls the note generator once with the full transcript, so two calls in succession
  call it twice, and write the notes twice when the generator and the file system do not
  fail.  With a blank transcript neither call reaches the generator.
\<close>

theorem cleanup_twice:
  "generator_calls (trace (cleanup env (cleanup env st))) =
     generator_calls (trace st) @
       (if trim (fullTranscript st) = [] then [] else [fullTranscript st, fullTranscript st])
   \<and> ((\<forall>tr t. openai_create env tr t \<noteq> None) \<and> (\<forall>tr. writeFileSync_ok env tr) \<and>
       trim (fullTranscript st) \<noteq> [] \<longrightarrow>
       length (notes_written (trace (cleanup env (cleanup env st)))) =
         length (notes_written (trace st)) + 2)"
proof -
  have n1: "length (notes_written (trace (cleanup env s))) = length (notes_written (trace s)) + 1"
    if "\<forall>tr t. openai_create env tr t \<noteq> None" "\<forall>tr. writeFileSync_ok env tr"
      "trim (fullTranscript s) \<noteq> []" for s
    using that by (simp add: cleanup_steps generateNotes_written)
  show ?thesis
    using n1 [of st] n1 [of "cleanup env st"]
    by (simp add: cleanup_calls)
qed

theorem cleanup_twice_witness:
  "generator_calls (trace (cleanup demo_env (cleanup demo_env demo_state))) = [''buy milk '', ''buy milk '']
   \<and> length (notes_written (trace (cleanup demo_env (cleanup demo_env demo_state)))) = 2"
  using cleanup_twice [of demo_env demo_state]
  by (simp add: demo_simps demo_state_simps trim_demo)

text \<open>Two calls of \<open>cleanup\<close> in the concrete session call the generator twice.\<close>

theorem cleanup_not_idempotent:
  "length (generator_calls (trace (cleanup demo_env (cleanup demo_env demo_state)))) = 2"
  by (simp add: cleanup_calls demo_state_simps trim_demo)

lemma startMicrophone_fields [simp]:
  "recordedFrames (startMicrophone env st) = recordedFrames st"
  "fullTranscript (startMicrophone env st) = fullTranscript st"
  "handlersInstalled (startMicrophone env st) = handlersInstalled st"
  "frames_sent (trace (startMicrophone env st)) = frames_sent (trace st)"
  "stopRequested st \<Longrightarrow> stopRequested (startMicrophone env st)"
  by (simp_all add: startMicrophone_def split: mic_outcome.splits)

lemma ws_on_message_fields [simp]:
  "micInstance (ws_on_message env m st) = micInstance st"
  "micInputStream (ws_on_message env m st) = micInputStream st"
  "ws (ws_on_message env m st) = ws st"
  "stopRequested (ws_on_message env m st) = stopRequested st"
  "recordedFrames (ws_on_message env m st) = recordedFrames st"
  "handlersInstalled (ws_on_message env m st) = handlersInstalled st"
  "frames_sent (trace (ws_on_message env m st)) = frames_sent (trace st)"
  by (simp_all add: ws_on_message_def handling_error_def Let_def split: option.splits)

text \<open>The frame an event adds to the recording, if any.\<close>

lemma dispatch_frames:
  "recordedFrames (dispatch env ev st) = recordedFrames st @ frame_added ev st
   \<and> frames_sent (trace (dispatch env ev st)) = frames_sent (trace st) @ frame_added ev st"
  by (cases ev)
     (simp_all add: frame_added_def ws_on_open_def ws_on_error_def ws_on_close_def Let_def
        mic_on_data_def mic_on_error_def on_SIGINT_def on_SIGTERM_def on_uncaughtException_def)

lemma dispatch_stopRequested:
  "stopRequested st \<Longrightarrow> stopRequested (dispatch env ev st)"
  by (cases ev)
     (simp_all add: ws_on_open_def ws_on_error_def ws_on_close_def Let_def
        mic_on_data_def mic_on_error_def on_SIGINT_def on_SIGTERM_def on_uncaughtException_def)

lemma step_frames:
  "recordedFrames (step env st ev) = recordedFrames st @ (if handlersInstalled st then frame_added ev st else [])
   \<and> frames_sent (trace (step env st ev)) = frames_sent (trace st) @ (if handlersInstalled st then frame_added ev st else [])"
  using dispatch_frames [of env ev st] by (simp add: step_def)

lemma frame_added_stopped: "stopRequested st \<Longrightarrow> frame_added ev st = []"
  by (cases ev) (simp_all add: frame_added_def)

lemma steps_stopped:
  "stopRequested st \<Longrightarrow>
     stopRequested (steps env st evs) \<and> recordedFrames (steps env st evs) = recordedFrames st
     \<and> frames_sent (trace (steps env st evs)) = frames_sent (trace st)"
proof (induction evs arbitrary: st)
  case Nil
  then show ?case by (simp add: steps_def)
next
  case (Cons ev evs)
  have s: "stopRequested (step env st ev)"
    using Cons.prems dispatch_stopRequested [of st env ev] by (simp add: step_def)
  have f: "recordedFrames (step env st ev) = recordedFrames st"
    "frames_sent (trace (step env st ev)) = frames_sent (trace st)"
    using step_frames [of env st ev] frame_added_stopped [OF Cons.prems, of ev] by simp_all
  from Cons.IH [OF s] f show ?case
    by (simp add: steps_def)
qed

lemma steps_recorded_eq_sent:
  "recordedFrames st = frames_sent (trace st) \<Longrightarrow>
     recordedFrames (steps env st evs) = frames_sent (trace (steps env st evs))"
proof (induction evs arbitrary: st)
  case Nil
  then show ?case by (simp add: steps_def)
next
  case (Cons ev evs)
  have "recordedFrames (step env st ev) = frames_sent (trace (step env st ev))"
    using step_frames [of env st ev] Cons.prems by simp
  from Cons.IH [OF this] show ?case
    by (simp add: steps_def)
qed

lemma main_simps:
  "recordedFrames (main env) = []" "frames_sent (trace (main env)) = []"
  "fullTranscript (main env) = []" "generator_calls (trace (main env)) = []"
  "\<not> stopRequested (main env)" "\<not> micInstance (main env)" "\<not> micInputStream (main env)"
  by (simp_all add: main_def run_def Let_def initial_def emit_def emits_def)

text \<open>
  Claim C8.  The handler of an audio frame appends the frame to \<open>recordedFrames\<close> and
  sends it on the socket exactly when the socket is open and \<open>stopRequested\<close> is false;
  otherwise it does nothing.  \<open>cleanup\<close> sets \<open>stopRequested\<close>, and from then on no
  event changes the recording or sends a frame.  Throughout a run the recorded frames are
  the frames sent, in the order sent.
\<close>

theorem frames_recorded_iff_forwarded:
  "mic_on_data d st =
     (if ws st = Some OPEN \<and> \<not> stopRequested st
      then st\<lparr>recordedFrames := recordedFrames st @ [d], trace := trace st @ [WsSendBinary d]\<rparr>
      else st)
   \<and> stopRequested (cleanup env st)
   \<and> (stopRequested st \<longrightarrow>
        stopRequested (steps env st evs) \<and> recordedFrames (steps env st evs) = recordedFrames st \<and>
        frames_sent (trace (steps env st evs)) = frames_sent (trace st))
   \<and> (recordedFrames st = frames_sent (trace st) \<longrightarrow>
        recordedFrames (steps env st evs) = frames_sent (trace (steps env st evs)))
   \<and> recordedFrames (steps env (main env) evs) = frames_sent (trace (steps env (main env) evs))"
proof -
  have "mic_on_data d st =
     (if ws st = Some OPEN \<and> \<not> stopRequested st
      then st\<lparr>recordedFrames := recordedFrames st @ [d], trace := trace st @ [WsSendBinary d]\<rparr>
      else st)"
    by (simp add: mic_on_data_def emit_def)
  moreover have "recordedFrames (steps env (main env) evs) = frames_sent (trace (steps env (main env) evs))"
    by (rule steps_recorded_eq_sent) (simp add: main_simps)
  ultimately show ?thesis
    using steps_stopped [of st env evs] steps_recorded_eq_sent [of st env evs] by simp
qed

lemma turn_message:
  assumes "JSON_parse env m = Some data" "is_turn data text final"
  shows "ws_on_message env m st =
           (if final
            then (emits [StdoutWrite ''clear line'', ConsoleLog text] st)
                   \<lparr>fullTranscript := fullTranscript st @ text @ '' ''\<rparr>
            else emit (StdoutWrite text) st)"
  using assms
  by (simp add: ws_on_message_def is_turn_def Let_def or_else_def to_string_def)

lemma begin_message:
  assumes "JSON_parse env m = Some data" "is_begin data"
  shows "fullTranscript (ws_on_message env m st) = fullTranscript st
       \<and> generator_calls (trace (ws_on_message env m st)) = generator_calls (trace st)"
  using assms
  by (simp add: ws_on_message_def is_begin_def Let_def handling_error_def)

lemma termination_message:
  assumes "JSON_parse env m = Some data" "is_termination data"
  shows "generator_calls (trace (ws_on_message env m st)) =
           generator_calls (trace st) @ (if trim (fullTranscript st) = [] then [] else [fullTranscript st])"
  using assms
  by (simp add: ws_on_message_def is_termination_def Let_def generateNotes_calls
      primitive_to_string)

lemma steps_Cons: "steps env st (ev # evs) = steps env (step env st ev) evs"
  by (simp add: steps_def)

lemma steps_Nil: "steps env st [] = st"
  by (simp add: steps_def)

lemma step_message: "handlersInstalled st \<Longrightarrow> step env st (WsMessage m) = ws_on_message env m st"
  by (simp add: step_def)

lemma turns_transcript:
  assumes "handlersInstalled st"
    and "list_all2 (\<lambda>m (text, final). \<exists>data. JSON_parse env m = Some data \<and> is_turn data text final) msgs turns"
  shows "fullTranscript (steps env st (map WsMessage msgs)) = fullTranscript st @ final_text turns"
  using assms(2,1)
proof (induction msgs turns arbitrary: st rule: list_all2_induct)
  case Nil
  then show ?case by (simp add: steps_Nil final_text_def)
next
  case (Cons m msgs turn turns)
  obtain tx final where turn: "turn = (tx, final)"
    by (cases turn)
  from Cons.hyps(1) turn obtain data
    where d: "JSON_parse env m = Some data" "is_turn data tx final"
    by auto
  let ?st = "ws_on_message env m st"
  have h: "handlersInstalled ?st"
    using Cons.prems by simp
  have "fullTranscript ?st = fullTranscript st @ (if final then tx @ '' '' else [])"
    by (simp add: turn_message [OF d])
  with Cons.IH [OF h] show ?case
    using Cons.prems by (simp add: steps_Cons step_message turn final_text_def)
qed

text \<open>
  Claim C3.  After a sequence of \<open>Turn\<close> messages the transcript is the transcript
  before, followed by the text of the turns marked final, in order of arrival, each with
  one space after it; a turn that is not final leaves the transcript as it was.  For the
  messages \<open>Begin\<close>, final "buy milk", interim "call mom", final "call mom",
  \<open>Termination\<close> the note generator is called once, with "buy milk call mom ".
\<close>

theorem transcript_is_final_turns:
  "(handlersInstalled st \<and>
    list_all2 (\<lambda>m (text, final). \<exists>data. JSON_parse env m = Some data \<and> is_turn data text final) msgs turns
      \<longrightarrow> fullTranscript (steps env st (map WsMessage msgs)) = fullTranscript st @ final_text turns)
   \<and> (JSON_parse env m = Some data \<and> is_turn data words False
      \<longrightarrow> fullTranscript (ws_on_message env m st) = fullTranscript st)
   \<and> (handlersInstalled st \<and> fullTranscript st = [] \<and> generator_calls (trace st) = [] \<and>
      JSON_parse env m1 = Some d1 \<and> is_begin d1 \<and>
      JSON_parse env m2 = Some d2 \<and> is_turn d2 ''buy milk'' True \<and>
      JSON_parse env m3 = Some d3 \<and> is_turn d3 ''call mom'' False \<and>
      JSON_parse env m4 = Some d4 \<and> is_turn d4 ''call mom'' True \<and>
      JSON_parse env m5 = Some d5 \<and> is_termination d5
      \<longrightarrow> generator_calls (trace (steps env st (map WsMessage [m1, m2, m3, m4, m5])))
            = [''buy milk call mom ''])"
proof (intro conjI impI)
  assume "handlersInstalled st \<and>
    list_all2 (\<lambda>m (text, final). \<exists>data. JSON_parse env m = Some data \<and> is_turn data text final) msgs turns"
  then show "fullTranscript (steps env st (map WsMessage msgs)) = fullTranscript st @ final_text turns"
    using turns_transcript [of st env msgs turns] by simp
next
  assume "JSON_parse env m = Some data \<and> is_turn data words False"
  then have "JSON_parse env m = Some data" and "is_turn data words False"
    by simp_all
  from turn_message [OF this, of st]
  show "fullTranscript (ws_on_message env m st) = fullTranscript st"
    by simp
next
  assume a: "handlersInstalled st \<and> fullTranscript st = [] \<and> generator_calls (trace st) = [] \<and>
      JSON_parse env m1 = Some d1 \<and> is_begin d1 \<and>
      JSON_parse env m2 = Some d2 \<and> is_turn d2 ''buy milk'' True \<and>
      JSON_parse env m3 = Some d3 \<and> is_turn d3 ''call mom'' False \<and>
      JSON_parse env m4 = Some d4 \<and> is_turn d4 ''call mom'' True \<and>
      JSON_parse env m5 = Some d5 \<and> is_termination d5"
  let ?s1 = "ws_on_message env m1 st"
  let ?s2 = "ws_on_message env m2 ?s1"
  let ?s3 = "ws_on_message env m3 ?s2"
  let ?s4 = "ws_on_message env m4 ?s3"
  let ?s5 = "ws_on_message env m5 ?s4"
  have run: "steps env st (map WsMessage [m1, m2, m3, m4, m5]) = ?s5"
    using a by (simp add: steps_Cons steps_Nil step_message)
  have s1: "fullTranscript ?s1 = [] \<and> generator_calls (trace ?s1) = []"
    using a begin_message [of env m1 d1 st] by simp
  have s2: "fullTranscript ?s2 = ''buy milk '' \<and> generator_calls (trace ?s2) = []"
    using a s1 turn_message [of env m2 d2 "''buy milk''" True ?s1] by simp
  have s3: "fullTranscript ?s3 = ''buy milk '' \<and> generator_calls (trace ?s3) = []"
    using a s2 turn_message [of env m3 d3 "''call mom''" False ?s2] by simp
  have s4: "fullTranscript ?s4 = ''buy milk call mom '' \<and> generator_calls (trace ?s4) = []"
    using a s3 turn_message [of env m4 d4 "''call mom''" True ?s3] by simp
  have nb: "trim ''buy milk call mom '' \<noteq> []"
    by (simp add: trim_def is_space_def)
  have "generator_calls (trace ?s5) = [''buy milk call mom '']"
    using a s4 nb termination_message [of env m5 d5 ?s4] by simp
  with run show "generator_calls (trace (steps env st (map WsMessage [m1, m2, m3, m4, m5])))
            = [''buy milk call mom '']"
    by simp
qed

lemma demo_parse_simps:
  "demo_parse msg_begin =
     Some (JObj [(''type'', JStr ''Begin''), (''id'', JStr ''s1''), (''expires_at'', JNum 1700000000)])"
  "demo_parse msg_turn1 =
     Some (JObj [(''type'', JStr ''Turn''), (''transcript'', JStr ''buy milk''),
                 (''turn_is_formatted'', JBool True)])"
  "demo_parse msg_turn2 =
     Some (JObj [(''type'', JStr ''Turn''), (''transcript'', JStr ''call mom''),
                 (''turn_is_formatted'', JBool False)])"
  "demo_parse msg_turn3 =
     Some (JObj [(''type'', JStr ''Turn''), (''transcript'', JStr ''call mom''),
                 (''turn_is_formatted'', JBool True)])"
  "demo_parse msg_ping = Some (JObj [(''type'', JStr ''Ping'')])"
  "demo_parse msg_malformed = None"
  by (simp_all add: demo_parse_def msg_termination_def msg_begin_def msg_turn1_def msg_turn2_def
      msg_turn3_def msg_ping_def msg_malformed_def)

lemma main_demo:
  "handlersInstalled (main demo_env)" "ws (main demo_env) = Some CONNECTING"
  by (simp_all add: main_def run_def Let_def demo_env_def YOUR_ASSEMBLYAI_API_KEY_def
      openai_apiKey_def or_default_def emit_def emits_def initial_def)

theorem transcript_is_final_turns_witness:
  "fullTranscript (steps demo_env (main demo_env) (map WsMessage [msg_turn1, msg_turn2, msg_turn3]))
     = ''buy milk call mom ''
   \<and> fullTranscript (ws_on_message demo_env msg_turn2 (main demo_env)) = []
   \<and> generator_calls (trace (steps demo_env (main demo_env)
        (map WsMessage [msg_begin, msg_turn1, msg_turn2, msg_turn3, msg_termination])))
     = [''buy milk call mom '']"
proof -
  let ?d1 = "JObj [(''type'', JStr ''Begin''), (''id'', JStr ''s1''), (''expires_at'', JNum 1700000000)]"
  let ?d2 = "JObj [(''type'', JStr ''Turn''), (''transcript'', JStr ''buy milk''),
                   (''turn_is_formatted'', JBool True)]"
  let ?d3 = "JObj [(''type'', JStr ''Turn''), (''transcript'', JStr ''call mom''),
                   (''turn_is_formatted'', JBool False)]"
  let ?d4 = "JObj [(''type'', JStr ''Turn''), (''transcript'', JStr ''call mom''),
                   (''turn_is_formatted'', JBool True)]"
  let ?d5 = "JObj [(''type'', JStr ''Termination''), (''audio_duration_seconds'', JNum 3),
                   (''session_duration_seconds'', JNum 4)]"
  have p: "JSON_parse demo_env msg_begin = Some ?d1" "JSON_parse demo_env msg_turn1 = Some ?d2"
    "JSON_parse demo_env msg_turn2 = Some ?d3" "JSON_parse demo_env msg_turn3 = Some ?d4"
    "JSON_parse demo_env msg_termination = Some ?d5"
    by (simp_all add: demo_simps demo_parse_simps demo_parse_termination)
  have k: "is_begin ?d1" "is_turn ?d2 ''buy milk'' True" "is_turn ?d3 ''call mom'' False"
    "is_turn ?d4 ''call mom'' True" "is_termination ?d5"
    by (simp_all add: is_begin_def is_turn_def is_termination_def)
  have l: "list_all2 (\<lambda>m (text, final). \<exists>data. JSON_parse demo_env m = Some data \<and> is_turn data text final)
             [msg_turn1, msg_turn2, msg_turn3]
             [(''buy milk'', True), (''call mom'', False), (''call mom'', True)]"
    using p k by simp
  have f: "final_text [(''buy milk'', True), (''call mom'', False), (''call mom'', True)]
             = ''buy milk call mom ''"
    by (simp add: final_text_def)
  from transcript_is_final_turns [where st = "main demo_env" and env = demo_env
      and msgs = "[msg_turn1, msg_turn2, msg_turn3]"
      and turns = "[(''buy milk'', True), (''call mom'', False), (''call mom'', True)]"
      and m = msg_turn2 and data = ?d3 and words = "''call mom''"
      and ?m1.0 = msg_begin and ?d1.0 = ?d1 and ?m2.0 = msg_turn1 and ?d2.0 = ?d2
      and ?m3.0 = msg_turn2 and ?d3.0 = ?d3 and ?m4.0 = msg_turn3 and ?d4.0 = ?d4
      and ?m5.0 = msg_termination and ?d5.0 = ?d5]
    p k l f
  show ?thesis
    by (simp add: main_demo main_simps)
qed

lemma saveWavFile_empty:
  "recordedFrames st = [] \<Longrightarrow> saveWavFile env st = emit (ConsoleLog ''No audio data recorded.'') st"
  by (simp add: saveWavFile_def)

text \<open>
  Claim C5.  With no frame recorded, \<open>saveWavFile\<close> prints the line "No audio data
  recorded." and returns: it writes no file, whether called directly or from \<open>cleanup\<close>,
  and changes nothing else.
\<close>

theorem empty_recording_writes_no_file:
  "recordedFrames st = [] \<longrightarrow>
     saveWavFile env st = emit (ConsoleLog ''No audio data recorded.'') st
     \<and> wavs_written (trace (saveWavFile env st)) = wavs_written (trace st)
     \<and> wavs_written (trace (cleanup env st)) = wavs_written (trace st)"
  by (simp add: saveWavFile_empty cleanup_steps)

theorem empty_recording_writes_no_file_witness:
  "saveWavFile demo_env initial = emit (ConsoleLog ''No audio data recorded.'') initial
   \<and> wavs_written (trace (saveWavFile demo_env initial)) = []
   \<and> wavs_written (trace (cleanup demo_env initial)) = []"
proof -
  have "recordedFrames initial = []" "trace initial = []"
    by (simp_all add: initial_def)
  with empty_recording_writes_no_file [of initial demo_env] show ?thesis
    by simp
qed

lemma steps_no_handlers: "\<not> handlersInstalled st \<Longrightarrow> steps env st evs = st"
  by (induction evs) (simp_all add: steps_def step_def)

lemma main_missing_key:
  assumes "YOUR_ASSEMBLYAI_API_KEY env = ''YOUR_ASSEMBLYAI_API_KEY'' \<or> openai_apiKey env = ''YOUR_OPENAI_API_KEY''"
  shows "\<exists>msg. main env = initial\<lparr>trace :=
           [ConsoleLog ''Voice-to-Notes Assistant Starting...'',
            ConsoleLog ''Starting AssemblyAI real-time transcription...'',
            ConsoleLog ''Audio will be saved to a WAV file when the session ends.'',
            ConsoleLog ''Notes will be generated automatically when you stop recording.'',
            ConsoleError msg]\<rparr>"
  using assms
  by (auto simp add: main_def run_def Let_def emit_def emits_def initial_def)

text \<open>
  Claim C6 (as amended).  When a credential is absent (the environment variable is
  unset or empty), \<open>run\<close> prints an error line and returns: no socket is created, no
  handler is registered, the microphone is not started, and no later event has any
  effect.  The program does not call \<open>process.exit\<close> on this path, so the process ends
  with status 0.
\<close>

theorem missing_credentials_stop_run:
  "(ASSEMBLYAI_API_KEY env = None \<or> ASSEMBLYAI_API_KEY env = Some [] \<or>
    OPENAI_API_KEY env = None \<or> OPENAI_API_KEY env = Some [])
   \<longrightarrow> ws (main env) = None \<and> \<not> micInstance (main env) \<and> \<not> handlersInstalled (main env)
       \<and> WsConnect \<notin> set (trace (main env)) \<and> MicStart \<notin> set (trace (main env))
       \<and> (\<exists>msg. last (trace (main env)) = ConsoleError msg)
       \<and> concat (map exits_of (trace (main env))) = []
       \<and> exit_status (trace (main env)) = 0
       \<and> steps env (main env) evs = main env"
proof
  assume "ASSEMBLYAI_API_KEY env = None \<or> ASSEMBLYAI_API_KEY env = Some [] \<or>
    OPENAI_API_KEY env = None \<or> OPENAI_API_KEY env = Some []"
  then have "YOUR_ASSEMBLYAI_API_KEY env = ''YOUR_ASSEMBLYAI_API_KEY'' \<or> openai_apiKey env = ''YOUR_OPENAI_API_KEY''"
    by (auto simp add: YOUR_ASSEMBLYAI_API_KEY_def openai_apiKey_def or_default_def)
  from main_missing_key [OF this] obtain msg where m: "main env = initial\<lparr>trace :=
           [ConsoleLog ''Voice-to-Notes Assistant Starting...'',
            ConsoleLog ''Starting AssemblyAI real-time transcription...'',
            ConsoleLog ''Audio will be saved to a WAV file when the session ends.'',
            ConsoleLog ''Notes will be generated automatically when you stop recording.'',
            ConsoleError msg]\<rparr>"
    by blast
  have h: "\<not> handlersInstalled (main env)"
    by (simp add: m initial_def)
  show "ws (main env) = None \<and> \<not> micInstance (main env) \<and> \<not> handlersInstalled (main env)
       \<and> WsConnect \<notin> set (trace (main env)) \<and> MicStart \<notin> set (trace (main env))
       \<and> (\<exists>msg. last (trace (main env)) = ConsoleError msg)
       \<and> concat (map exits_of (trace (main env))) = []
       \<and> exit_status (trace (main env)) = 0
       \<and> steps env (main env) evs = main env"
    using steps_no_handlers [OF h, of env evs]
    by (simp add: m initial_def exit_status_def)
qed

theorem missing_credentials_stop_run_witness:
  "ws (main (demo_env\<lparr>OPENAI_API_KEY := None\<rparr>)) = None
   \<and> \<not> handlersInstalled (main (demo_env\<lparr>OPENAI_API_KEY := None\<rparr>))
   \<and> exit_status (trace (main (demo_env\<lparr>OPENAI_API_KEY := None\<rparr>))) = 0
   \<and> steps (demo_env\<lparr>OPENAI_API_KEY := None\<rparr>) (main (demo_env\<lparr>OPENAI_API_KEY := None\<rparr>)) [SIGINT]
       = main (demo_env\<lparr>OPENAI_API_KEY := None\<rparr>)"
  using missing_credentials_stop_run [of "demo_env\<lparr>OPENAI_API_KEY := None\<rparr>" "[SIGINT]"]
  by simp

text \<open>With the first credential unset the process ends with status 0.\<close>

theorem missing_credentials_exit_zero:
  "ASSEMBLYAI_API_KEY (demo_env\<lparr>ASSEMBLYAI_API_KEY := None\<rparr>) = None
   \<and> exit_status (trace (main (demo_env\<lparr>ASSEMBLYAI_API_KEY := None\<rparr>))) = 0"
  by (simp add: main_def run_def Let_def emit_def emits_def initial_def exit_status_def
      YOUR_ASSEMBLYAI_API_KEY_def or_default_def)

lemma unknown_message:
  assumes "JSON_parse env m = Some data" "\<not> known_type data"
  shows "ws_on_message env m st = (if data = JNull then handling_error st else st)"
  using assms
  by (simp add: ws_on_message_def known_type_def Let_def)

text \<open>
  Claim C7.  A message that \<open>JSON.parse\<close> rejects, or that parses to \<open>null\<close>, is logged
  on the error stream and dropped; a message that parses to any other value whose
  \<open>type\<close> is not \<open>Begin\<close>, \<open>Turn\<close> or \<open>Termination\<close> does nothing at all.  In every
  case the module-level variables keep their values and the handlers stay registered, so
  that a final turn arriving next is appended as usual.
\<close>

theorem bad_messages_are_dropped:
  "(JSON_parse env m = None \<or> JSON_parse env m = Some JNull \<longrightarrow>
      ws_on_message env m st = handling_error st)
   \<and> (JSON_parse env m = Some data \<and> data \<noteq> JNull \<and> \<not> known_type data \<longrightarrow>
      ws_on_message env m st = st)
   \<and> session (handling_error st) = session st
   \<and> handlersInstalled (handling_error st) = handlersInstalled st
   \<and> trace (handling_error st) =
       trace st @ [ConsoleError ''Error handling message'', ConsoleError ''Message data'']
   \<and> (handlersInstalled st \<and>
      (JSON_parse env m = None \<or> (\<exists>d. JSON_parse env m = Some d \<and> \<not> known_type d)) \<and>
      JSON_parse env m' = Some data' \<and> is_turn data' words True \<longrightarrow>
      fullTranscript (steps env st [WsMessage m, WsMessage m']) = fullTranscript st @ words @ '' '')"
proof -
  have a: "ws_on_message env m st = handling_error st"
    if "JSON_parse env m = None \<or> JSON_parse env m = Some JNull"
    using that by (auto simp add: ws_on_message_def)
  have b: "ws_on_message env m st = st"
    if "JSON_parse env m = Some data \<and> data \<noteq> JNull \<and> \<not> known_type data"
    using that unknown_message [of env m data st] by simp
  have c: "fullTranscript (steps env st [WsMessage m, WsMessage m']) = fullTranscript st @ words @ '' ''"
    if h: "handlersInstalled st"
      and bad: "JSON_parse env m = None \<or> (\<exists>d. JSON_parse env m = Some d \<and> \<not> known_type d)"
      and good: "JSON_parse env m' = Some data'" "is_turn data' words True"
  proof -
    have 1: "fullTranscript (ws_on_message env m st) = fullTranscript st"
      using bad
    proof (elim disjE exE conjE)
      assume "JSON_parse env m = None"
      then show ?thesis
        by (simp add: ws_on_message_def handling_error_def)
    next
      fix d
      assume "JSON_parse env m = Some d" and "\<not> known_type d"
      then show ?thesis
        by (simp add: unknown_message handling_error_def)
    qed
    have 2: "handlersInstalled (ws_on_message env m st)"
      using h by simp
    show ?thesis
      using h 1 2 by (simp add: steps_Cons steps_Nil step_message turn_message [OF good])
  qed
  show ?thesis
    using a b c by (simp add: handling_error_def session_def)
qed

theorem bad_messages_are_dropped_witness:
  "ws_on_message demo_env msg_malformed demo_state = handling_error demo_state
   \<and> ws_on_message demo_env msg_ping demo_state = demo_state
   \<and> session (handling_error demo_state) = session demo_state
   \<and> fullTranscript (steps demo_env demo_state [WsMessage msg_malformed, WsMessage msg_turn3])
       = ''buy milk call mom ''"
proof -
  let ?ping = "JObj [(''type'', JStr ''Ping'')]"
  let ?turn = "JObj [(''type'', JStr ''Turn''), (''transcript'', JStr ''call mom''),
                     (''turn_is_formatted'', JBool True)]"
  have p: "JSON_parse demo_env msg_malformed = None" "JSON_parse demo_env msg_ping = Some ?ping"
    "JSON_parse demo_env msg_turn3 = Some ?turn"
    by (simp_all add: demo_simps demo_parse_simps)
  have k: "?ping \<noteq> JNull" "\<not> known_type ?ping" "is_turn ?turn ''call mom'' True"
    by (simp_all add: known_type_def is_turn_def)
  from bad_messages_are_dropped [where env = demo_env and st = demo_state and m = msg_malformed
      and m' = msg_turn3 and data' = ?turn and words = "''call mom''"]
    bad_messages_are_dropped [where env = demo_env and st = demo_state and m = msg_ping
      and data = ?ping]
    p k
  show ?thesis
    by (simp add: demo_state_simps)
qed

theorem frames_recorded_iff_forwarded_witness:
  "stopRequested (cleanup demo_env (main demo_env))
   \<and> recordedFrames (steps demo_env (cleanup demo_env (main demo_env)) [MicData [1, 2], WsClosed, MicData [3, 4]]) = []
   \<and> frames_sent (trace (steps demo_env (cleanup demo_env (main demo_env)) [MicData [1, 2], WsClosed, MicData [3, 4]])) = []
   \<and> mic_on_data [1, 2] demo_state =
       demo_state\<lparr>recordedFrames := [[1, 2, 3, 4], [1, 2]], trace := [WsSendBinary [1, 2]]\<rparr>"
proof -
  have a: "stopRequested (cleanup demo_env (main demo_env))"
    "recordedFrames (cleanup demo_env (main demo_env)) = []"
    "frames_sent (trace (cleanup demo_env (main demo_env))) = []"
    by (simp_all add: main_simps)
  from frames_recorded_iff_forwarded [of "[1, 2]" demo_state demo_env]
  have b: "mic_on_data [1, 2] demo_state =
       demo_state\<lparr>recordedFrames := [[1, 2, 3, 4], [1, 2]], trace := [WsSendBinary [1, 2]]\<rparr>"
    by (simp add: demo_state_simps)
  from frames_recorded_iff_forwarded [of "[1, 2]" "cleanup demo_env (main demo_env)" demo_env
      "[MicData [1, 2], WsClosed, MicData [3, 4]]"] a b
  show ?thesis
    by simp
qed

lemma header_fields:
  assumes "36 + L < 2 ^ 32" "C * 2 < 2 ^ 16" "R < 2 ^ 32" "R * C * 2 < 2 ^ 32"
  shows "readUInt32LE (header_layout R C L @ payload) 4 = 36 + L"
    and "readUInt32LE (header_layout R C L @ payload) 16 = 16"
    and "readUInt16LE (header_layout R C L @ payload) 20 = 1"
    and "readUInt16LE (header_layout R C L @ payload) 22 = C"
    and "readUInt32LE (header_layout R C L @ payload) 24 = R"
    and "readUInt32LE (header_layout R C L @ payload) 28 = R * C * 2"
    and "readUInt16LE (header_layout R C L @ payload) 32 = C * 2"
    and "readUInt16LE (header_layout R C L @ payload) 34 = 16"
    and "readUInt32LE (header_layout R C L @ payload) 40 = L"
  using assms
  by (simp_all add: header_layout_def readUInt32LE_def readUInt16LE_def le_value_le_bytes)

lemma header_tags:
  "take 4 (header_layout R C L @ payload) = ascii ''RIFF''"
  "take 4 (drop 8 (header_layout R C L @ payload)) = ascii ''WAVE''"
  "take 4 (drop 12 (header_layout R C L @ payload)) = ascii ''fmt ''"
  "take 4 (drop 36 (header_layout R C L @ payload)) = ascii ''data''"
  by (simp_all add: header_layout_def)

lemma createWavHeader_SomeD:
  assumes "createWavHeader R C L = Some h"
  shows "36 + L < 2 ^ 32 \<and> C * 2 < 2 ^ 16 \<and> R < 2 ^ 32 \<and> R * C * 2 < 2 ^ 32"
  using assms
  by (auto simp add: createWavHeader_def writeUInt32LE_def writeUInt16LE_def Let_def
      split: bind_splits if_splits)

lemma wavFile_out_of_bounds:
  assumes "\<not> (36 + length (concat frames) < 2 ^ 32 \<and> C * 2 < 2 ^ 16 \<and> R < 2 ^ 32 \<and>
              R * C * 2 < 2 ^ 32 \<and> 44 + length (concat frames) \<le> maxLength)"
  shows "wavFile maxLength R C frames = None"
proof (cases "createWavHeader R C (length (concat frames))")
  case None
  then show ?thesis
    by (simp add: wavFile_def Buffer_concat_def Let_def)
next
  case (Some h)
  from createWavHeader_SomeD [OF Some]
  have r: "36 + length (concat frames) < 2 ^ 32" "C * 2 < 2 ^ 16" "R < 2 ^ 32" "R * C * 2 < 2 ^ 32"
    by simp_all
  from createWavHeader_layout [OF r] Some have "length h = 44"
    by (simp add: length_header_layout)
  with Some assms r show ?thesis
    by (simp add: wavFile_def Buffer_concat_def Let_def)
qed

lemma saveWavFile_out_of_bounds:
  assumes "recordedFrames st \<noteq> []"
    "\<not> (36 + length (concat (recordedFrames st)) < 2 ^ 32 \<and>
        44 + length (concat (recordedFrames st)) \<le> MAX_LENGTH env)"
  shows "saveWavFile env st = emit (ConsoleError ''Error saving WAV file'') st"
  using assms wavFile_out_of_bounds [of "recordedFrames st" CHANNELS SAMPLE_RATE "MAX_LENGTH env"]
  by (auto simp add: saveWavFile_def Let_def)

text \<open>
  Claim C4 (as amended).  For frames of total length \<open>L\<close>, a sample rate \<open>R\<close> and a
  channel count \<open>C\<close> whose header fields fit their width (\<open>36 + L < 2^32\<close>,
  \<open>C * 2 < 2^16\<close>, \<open>R < 2^32\<close>, \<open>R * C * 2 < 2^32\<close>) and whose file fits a buffer
  (\<open>44 + L\<close> at most \<open>MAX_LENGTH\<close>), the encoder returns the 44-byte header followed by
  the frames in order: the length is \<open>44 + L\<close>, the chunk size \<open>36 + L\<close>, the data size
  \<open>L\<close>, the format code 1, the block alignment \<open>C * 2\<close>, 16 bits per sample and the
  byte rate \<open>R * C * 2\<close>, all little-endian, and the bytes after the header are the
  concatenated frames.  Outside these bounds the encoder throws and returns nothing.
  \<open>saveWavFile\<close> writes the file of the recorded frames at 16000 Hz and one channel
  when they fit, and only logs an error, writing nothing, when they do not.
\<close>

theorem wav_file_layout:
  "(36 + length (concat frames) < 2 ^ 32 \<and> C * 2 < 2 ^ 16 \<and> R < 2 ^ 32 \<and> R * C * 2 < 2 ^ 32 \<and>
    44 + length (concat frames) \<le> maxLength \<longrightarrow>
     (\<exists>file. wavFile maxLength R C frames = Some file
        \<and> file = header_layout R C (length (concat frames)) @ concat frames
        \<and> length file = 44 + length (concat frames)
        \<and> take 4 file = ascii ''RIFF''
        \<and> readUInt32LE file 4 = 36 + length (concat frames)
        \<and> take 4 (drop 8 file) = ascii ''WAVE''
        \<and> take 4 (drop 12 file) = ascii ''fmt ''
        \<and> readUInt32LE file 16 = 16
        \<and> readUInt16LE file 20 = 1
        \<and> readUInt16LE file 22 = C
        \<and> readUInt32LE file 24 = R
        \<and> readUInt32LE file 28 = R * C * 2
        \<and> readUInt16LE file 32 = C * 2
        \<and> readUInt16LE file 34 = 16
        \<and> take 4 (drop 36 file) = ascii ''data''
        \<and> readUInt32LE file 40 = length (concat frames)
        \<and> wav_payload file = concat frames))
   \<and> (\<not> (36 + length (concat frames) < 2 ^ 32 \<and> C * 2 < 2 ^ 16 \<and> R < 2 ^ 32 \<and>
          R * C * 2 < 2 ^ 32 \<and> 44 + length (concat frames) \<le> maxLength) \<longrightarrow>
      wavFile maxLength R C frames = None)
   \<and> (recordedFrames st \<noteq> [] \<and> 36 + length (concat (recordedFrames st)) < 2 ^ 32 \<and>
      44 + length (concat (recordedFrames st)) \<le> MAX_LENGTH env \<and>
      writeFileSync_ok env (trace st) \<longrightarrow>
      wavs_written (trace (saveWavFile env st)) =
        wavs_written (trace st) @
          [header_layout 16000 1 (length (concat (recordedFrames st))) @ concat (recordedFrames st)])
   \<and> (recordedFrames st \<noteq> [] \<and>
      \<not> (36 + length (concat (recordedFrames st)) < 2 ^ 32 \<and>
         44 + length (concat (recordedFrames st)) \<le> MAX_LENGTH env) \<longrightarrow>
      saveWavFile env st = emit (ConsoleError ''Error saving WAV file'') st \<and>
      wavs_written (trace (saveWavFile env st)) = wavs_written (trace st))"
proof (intro conjI impI)
  assume a: "36 + length (concat frames) < 2 ^ 32 \<and> C * 2 < 2 ^ 16 \<and> R < 2 ^ 32 \<and>
    R * C * 2 < 2 ^ 32 \<and> 44 + length (concat frames) \<le> maxLength"
  let ?L = "length (concat frames)"
  let ?file = "header_layout R C ?L @ concat frames"
  from a have r: "36 + ?L < 2 ^ 32" "C * 2 < 2 ^ 16" "R < 2 ^ 32" "R * C * 2 < 2 ^ 32"
    and m: "44 + ?L \<le> maxLength"
    by simp_all
  have "wavFile maxLength R C frames = Some ?file"
    by (rule wavFile_in_bounds [OF r m])
  moreover have "length ?file = 44 + ?L"
    by (simp add: length_header_layout)
  moreover have "wav_payload ?file = concat frames"
    by (simp add: wav_payload_def length_header_layout)
  ultimately show "\<exists>file. wavFile maxLength R C frames = Some file
        \<and> file = header_layout R C (length (concat frames)) @ concat frames
        \<and> length file = 44 + length (concat frames)
        \<and> take 4 file = ascii ''RIFF''
        \<and> readUInt32LE file 4 = 36 + length (concat frames)
        \<and> take 4 (drop 8 file) = ascii ''WAVE''
        \<and> take 4 (drop 12 file) = ascii ''fmt ''
        \<and> readUInt32LE file 16 = 16
        \<and> readUInt16LE file 20 = 1
        \<and> readUInt16LE file 22 = C
        \<and> readUInt32LE file 24 = R
        \<and> readUInt32LE file 28 = R * C * 2
        \<and> readUInt16LE file 32 = C * 2
        \<and> readUInt16LE file 34 = 16
        \<and> take 4 (drop 36 file) = ascii ''data''
        \<and> readUInt32LE file 40 = length (concat frames)
        \<and> wav_payload file = concat frames"
    using header_fields [OF r, of "concat frames"] header_tags [of R C ?L "concat frames"]
    by simp
next
  assume "\<not> (36 + length (concat frames) < 2 ^ 32 \<and> C * 2 < 2 ^ 16 \<and> R < 2 ^ 32 \<and>
          R * C * 2 < 2 ^ 32 \<and> 44 + length (concat frames) \<le> maxLength)"
  then show "wavFile maxLength R C frames = None"
    by (rule wavFile_out_of_bounds)
next
  assume "recordedFrames st \<noteq> [] \<and> 36 + length (concat (recordedFrames st)) < 2 ^ 32 \<and>
      44 + length (concat (recordedFrames st)) \<le> MAX_LENGTH env \<and>
      writeFileSync_ok env (trace st)"
  then show "wavs_written (trace (saveWavFile env st)) =
        wavs_written (trace st) @
          [header_layout 16000 1 (length (concat (recordedFrames st))) @ concat (recordedFrames st)]"
    by (simp add: saveWavFile_written)
next
  assume b: "recordedFrames st \<noteq> [] \<and>
      \<not> (36 + length (concat (recordedFrames st)) < 2 ^ 32 \<and>
         44 + length (concat (recordedFrames st)) \<le> MAX_LENGTH env)"
  then have e: "saveWavFile env st = emit (ConsoleError ''Error saving WAV file'') st"
    using saveWavFile_out_of_bounds [of st env] by blast
  show "saveWavFile env st = emit (ConsoleError ''Error saving WAV file'') st"
    by (rule e)
  show "wavs_written (trace (saveWavFile env st)) = wavs_written (trace st)"
    by (simp add: e)
qed

theorem wav_file_layout_witness:
  "(\<exists>file. wavFile 4294967296 16000 1 [[1, 2], [3, 4]] = Some file \<and> length file = 48
      \<and> readUInt32LE file 4 = 40 \<and> readUInt16LE file 20 = 1 \<and> readUInt32LE file 24 = 16000
      \<and> readUInt32LE file 28 = 32000 \<and> readUInt16LE file 32 = 2 \<and> readUInt16LE file 34 = 16
      \<and> readUInt32LE file 40 = 4 \<and> wav_payload file = [1, 2, 3, 4])
   \<and> wavFile 4294967296 16000 32768 [[1, 2], [3, 4]] = None
   \<and> (\<exists>file. wavs_written (trace (saveWavFile demo_env demo_state)) = [file] \<and>
         length file = 48 \<and> wav_payload file = [1, 2, 3, 4])
   \<and> wavs_written (trace (saveWavFile (demo_env\<lparr>MAX_LENGTH := 40\<rparr>) demo_state)) = []"
proof -
  have d: "recordedFrames demo_state = [[1, 2, 3, 4]]" "trace demo_state = []"
    "writeFileSync_ok demo_env []" "MAX_LENGTH demo_env = 4294967296"
    by (simp_all add: demo_state_simps demo_simps)
  note a = wav_file_layout [of "[[1, 2], [3, 4]]" 1 16000 4294967296 demo_state demo_env]
  note b = wav_file_layout [of "[[1, 2], [3, 4]]" 32768 16000 4294967296 demo_state
      "demo_env\<lparr>MAX_LENGTH := 40\<rparr>"]
  have 1: "\<exists>file. wavFile 4294967296 16000 1 [[1, 2], [3, 4]] = Some file \<and> length file = 48
      \<and> readUInt32LE file 4 = 40 \<and> readUInt16LE file 20 = 1 \<and> readUInt32LE file 24 = 16000
      \<and> readUInt32LE file 28 = 32000 \<and> readUInt16LE file 32 = 2 \<and> readUInt16LE file 34 = 16
      \<and> readUInt32LE file 40 = 4 \<and> wav_payload file = [1, 2, 3, 4]"
    using a by simp
  have 2: "wavFile 4294967296 16000 32768 [[1, 2], [3, 4]] = None"
    using b by simp
  have 3: "\<exists>file. wavs_written (trace (saveWavFile demo_env demo_state)) = [file] \<and>
         length file = 48 \<and> wav_payload file = [1, 2, 3, 4]"
    using a d by (simp add: wav_payload_def length_header_layout)
  have 4: "wavs_written (trace (saveWavFile (demo_env\<lparr>MAX_LENGTH := 40\<rparr>) demo_state)) = []"
    using b d by simp
  from 1 2 3 4 show ?thesis
    by blast
qed

text \<open>
  One frame of 4294967260 bytes: the chunk size 36 + 4294967260 does not fit 32 bits,
  writing it throws, and no file results, even where a buffer may hold 2^53 - 1 bytes.
\<close>

theorem wav_length_field_overflow:
  "[replicate 4294967260 (0 :: byte)] \<noteq> []
   \<and> length (concat [replicate 4294967260 (0 :: byte)]) = 4294967260
   \<and> wavFile 9007199254740991 16000 1 [replicate 4294967260 0] = None"
  by (simp add: wavFile_def Buffer_concat_def createWavHeader_too_long)

lemma grows_generateNotes:
  "prefix tr (trace st) \<Longrightarrow> prefix tr (trace (generateNotesFromTranscript env t st))"
  by (erule prefix_order.trans) (rule generateNotes_grows)

lemma grows_cleanup: "prefix tr (trace st) \<Longrightarrow> prefix tr (trace (cleanup env st))"
  by (erule prefix_order.trans) (rule cleanup_grows)

lemma ws_on_message_grows: "prefix (trace st) (trace (ws_on_message env m st))"
  by (simp add: ws_on_message_def handling_error_def Let_def grows_generateNotes
      split: option.splits)

lemma startMicrophone_grows: "prefix (trace st) (trace (startMicrophone env st))"
  by (simp add: startMicrophone_def grows_cleanup split: mic_outcome.splits)

lemma grows_startMicrophone:
  "prefix tr (trace st) \<Longrightarrow> prefix tr (trace (startMicrophone env st))"
  by (erule prefix_order.trans) (rule startMicrophone_grows)

lemma dispatch_grows: "prefix (trace st) (trace (dispatch env ev st))"
  by (cases ev)
     (simp_all add: ws_on_open_def ws_on_error_def ws_on_close_def Let_def mic_on_data_def
        mic_on_error_def on_SIGINT_def on_SIGTERM_def on_uncaughtException_def
        ws_on_message_grows grows_cleanup grows_generateNotes grows_startMicrophone)

lemma steps_grows: "prefix (trace st) (trace (steps env st evs))"
proof (induction evs arbitrary: st)
  case Nil
  show ?case by (simp add: steps_Nil)
next
  case (Cons ev evs)
  have "prefix (trace st) (trace (step env st ev))"
    by (simp add: step_def dispatch_grows)
  also have "prefix \<dots> (trace (steps env (step env st ev) evs))"
    by (rule Cons.IH)
  finally show ?case
    by (simp add: steps_Cons)
qed

lemma written_mono:
  assumes "prefix tr tr'"
  shows "length (notes_written tr) \<le> length (notes_written tr')"
    and "length (wavs_written tr) \<le> length (wavs_written tr')"
  using assms by (auto elim!: prefixE)

lemma stamps_length:
  "length (notes_stamps tr) = length (notes_written tr)"
  "length (wav_stamps tr) = length (wavs_written tr)"
proof (induction tr)
  case Nil
  case 1 show ?case by simp
  case 2 show ?case by simp
next
  case (Cons e tr)
  case 1 with Cons show ?case by (cases e) simp_all
  case 2 with Cons show ?case by (cases e) simp_all
qed

lemma files_exist:
  "length (notes_written tr0) < length (notes_written tr) \<Longrightarrow> notes_files tr \<noteq> []"
  "length (wavs_written tr0) < length (wavs_written tr) \<Longrightarrow> wav_files tr \<noteq> []"
  using stamps_length [of tr] by (auto simp add: notes_files_def wav_files_def)

lemma later_written:
  assumes "length (notes_written tr0) < length (notes_written (trace st))"
  shows "length (notes_written tr0) < length (notes_written (trace (steps env st evs)))"
  using assms written_mono(1) [OF steps_grows [of st env evs]] by simp

lemma later_wavs:
  assumes "length (wavs_written tr0) < length (wavs_written (trace st))"
  shows "length (wavs_written tr0) < length (wavs_written (trace (steps env st evs)))"
  using assms written_mono(2) [OF steps_grows [of st env evs]] by simp

lemma first_trigger:
  assumes "\<forall>tr t. openai_create env tr t \<noteq> None" "\<forall>tr. writeFileSync_ok env tr"
    "trim (fullTranscript st) \<noteq> []"
    "recordedFrames st \<noteq> []" "36 + length (concat (recordedFrames st)) < 2 ^ 32"
    "44 + length (concat (recordedFrames st)) \<le> MAX_LENGTH env"
    "handlersInstalled st"
    "ev \<in> {WsClosed, WsError, SIGINT, SIGTERM}"
  shows "length (notes_written (trace st)) < length (notes_written (trace (step env st ev)))"
    and "length (wavs_written (trace st)) < length (wavs_written (trace (step env st ev)))"
proof -
  show "length (notes_written (trace st)) < length (notes_written (trace (step env st ev)))"
  proof (cases "ev = WsClosed")
    case True
    with assms close_written [of env st] show ?thesis by (simp add: step_def)
  next
    case False
    with assms have "ev \<in> {WsError, SIGINT, SIGTERM, UncaughtException}" by auto
    with assms dispatch_cleanup_written [of env st ev] show ?thesis by (simp add: step_def)
  qed
  show "length (wavs_written (trace st)) < length (wavs_written (trace (step env st ev)))"
  proof (cases "ev = WsClosed")
    case True
    with assms close_written [of env st] show ?thesis by (simp add: step_def)
  next
    case False
    with assms have "ev \<in> {WsError, SIGINT, SIGTERM, UncaughtException}" by auto
    with assms dispatch_cleanup_written [of env st ev] show ?thesis by (simp add: step_def)
  qed
qed

text \<open>
  Claim C1 (as amended).  Take a running session whose transcript is not blank and whose
  recorded frames are not empty and fit a WAV file and a buffer, with a note generator
  and a file system that do not fail.  When the close of the socket, a socket error, an
  interrupt signal or a termination signal comes first, a notes file and an audio file
  are written, and whatever events follow, at least one of each exists: never none.
  When a \<open>Termination\<close> message comes first, a notes file is written, and an audio
  file as soon as a close, an error or a signal follows.
\<close>

theorem shutdown_artifacts:
  assumes "\<forall>tr t. openai_create env tr t \<noteq> None" and "\<forall>tr. writeFileSync_ok env tr"
    and "trim (fullTranscript st) \<noteq> []"
    and "recordedFrames st \<noteq> []" and "36 + length (concat (recordedFrames st)) < 2 ^ 32"
    and "44 + length (concat (recordedFrames st)) \<le> MAX_LENGTH env"
    and "handlersInstalled st"
  shows "(ev \<in> {WsClosed, WsError, SIGINT, SIGTERM} \<longrightarrow>
            length (notes_written (trace st)) < length (notes_written (trace (steps env st (ev # evs)))) \<and>
            length (wavs_written (trace st)) < length (wavs_written (trace (steps env st (ev # evs)))) \<and>
            notes_files (trace (steps env st (ev # evs))) \<noteq> [] \<and>
            wav_files (trace (steps env st (ev # evs))) \<noteq> [])
       \<and> (JSON_parse env m = Some data \<and> is_termination data \<longrightarrow>
            length (notes_written (trace st))
              < length (notes_written (trace (steps env st (WsMessage m # evs)))) \<and>
            notes_files (trace (steps env st (WsMessage m # evs))) \<noteq> [] \<and>
            (ev \<in> {WsClosed, WsError, SIGINT, SIGTERM} \<longrightarrow>
               length (wavs_written (trace st))
                 < length (wavs_written (trace (steps env st (WsMessage m # ev # evs)))) \<and>
               wav_files (trace (steps env st (WsMessage m # ev # evs))) \<noteq> []))"
proof (intro conjI impI)
  assume ev: "ev \<in> {WsClosed, WsError, SIGINT, SIGTERM}"
  note first = first_trigger [OF assms ev]
  show n: "length (notes_written (trace st)) < length (notes_written (trace (steps env st (ev # evs))))"
    using later_written [OF first(1), of env evs] by (simp add: steps_Cons)
  show w: "length (wavs_written (trace st)) < length (wavs_written (trace (steps env st (ev # evs))))"
    using later_wavs [OF first(2), of env evs] by (simp add: steps_Cons)
  show "notes_files (trace (steps env st (ev # evs))) \<noteq> []"
    using n by (rule files_exist)
  show "wav_files (trace (steps env st (ev # evs))) \<noteq> []"
    using w by (rule files_exist)
next
  assume t: "JSON_parse env m = Some data \<and> is_termination data"
  let ?s1 = "step env st (WsMessage m)"
  have s1: "?s1 = ws_on_message env m st"
    using assms(7) by (simp add: step_message)
  have t1: "length (notes_written (trace st)) < length (notes_written (trace ?s1))"
    using t assms termination_written [of env st m data] by (simp add: step_def)
  show n: "length (notes_written (trace st))
              < length (notes_written (trace (steps env st (WsMessage m # evs))))"
    using later_written [OF t1, of env evs] by (simp add: steps_Cons)
  show "notes_files (trace (steps env st (WsMessage m # evs))) \<noteq> []"
    using n by (rule files_exist)
next
  assume t: "JSON_parse env m = Some data \<and> is_termination data"
    and ev: "ev \<in> {WsClosed, WsError, SIGINT, SIGTERM}"
  let ?s1 = "step env st (WsMessage m)"
  have s1: "?s1 = ws_on_message env m st"
    using assms(7) by (simp add: step_message)
  have k: "wavs_written (trace ?s1) = wavs_written (trace st)"
    using t assms termination_written [of env st m data] by (simp add: step_def)
  have f: "fullTranscript ?s1 = fullTranscript st"
    using t by (simp add: s1 ws_on_message_def is_termination_def Let_def primitive_to_string)
  have h: "trim (fullTranscript ?s1) \<noteq> []" "recordedFrames ?s1 \<noteq> []"
    "36 + length (concat (recordedFrames ?s1)) < 2 ^ 32"
    "44 + length (concat (recordedFrames ?s1)) \<le> MAX_LENGTH env"
    "handlersInstalled ?s1"
    using assms f by (simp_all add: s1)
  from first_trigger(2) [OF assms(1,2) h ev]
  have "length (wavs_written (trace st)) < length (wavs_written (trace (step env ?s1 ev)))"
    by (simp add: k)
  from later_wavs [OF this, of env evs]
  show w: "length (wavs_written (trace st))
                 < length (wavs_written (trace (steps env st (WsMessage m # ev # evs))))"
    by (simp add: steps_Cons)
  then show "wav_files (trace (steps env st (WsMessage m # ev # evs))) \<noteq> []"
    by (rule files_exist)
qed

text \<open>The concrete session: an interrupt and the close that follows it.\<close>

theorem shutdown_artifacts_witness:
  "notes_files (trace (steps demo_env demo_state [SIGINT, WsClosed])) \<noteq> []
   \<and> wav_files (trace (steps demo_env demo_state [SIGINT, WsClosed])) \<noteq> []
   \<and> notes_files (trace (steps demo_env demo_state [WsMessage msg_termination, WsClosed])) \<noteq> []
   \<and> wav_files (trace (steps demo_env demo_state [WsMessage msg_termination, SIGINT, WsClosed])) \<noteq> []"
proof -
  let ?data = "JObj [(''type'', JStr ''Termination''), (''audio_duration_seconds'', JNum 3),
                     (''session_duration_seconds'', JNum 4)]"
  have h1: "\<forall>tr t. openai_create demo_env tr t \<noteq> None"
    by (simp add: demo_simps)
  have h2: "\<forall>tr. writeFileSync_ok demo_env tr"
    by (simp add: demo_simps)
  have h3: "trim (fullTranscript demo_state) \<noteq> []"
    by (simp add: demo_state_simps trim_demo)
  have h4: "recordedFrames demo_state \<noteq> []"
    by (simp add: demo_state_simps)
  have h5: "36 + length (concat (recordedFrames demo_state)) < 2 ^ 32"
    by (simp add: demo_state_simps)
  have h6: "44 + length (concat (recordedFrames demo_state)) \<le> MAX_LENGTH demo_env"
    by (simp add: demo_state_simps demo_simps)
  have h7: "handlersInstalled demo_state"
    by (simp add: demo_state_simps)
  have p: "JSON_parse demo_env msg_termination = Some ?data" "is_termination ?data"
    by (simp_all add: demo_simps demo_parse_termination is_termination_def)
  from shutdown_artifacts [OF h1 h2 h3 h4 h5 h6 h7, of SIGINT "[WsClosed]" msg_termination ?data]
    shutdown_artifacts [OF h1 h2 h3 h4 h5 h6 h7, of WsClosed "[]" msg_termination ?data] p
  show ?thesis
    by simp
qed

lemma demo_clock_calls: "demo_clock tr = demo_tick (length (generator_calls tr))"
  by (simp add: demo_clock_def generator_calls_def)

lemma demo_generate:
  assumes "trim t \<noteq> []"
  shows "generator_calls (trace (generateNotesFromTranscript demo_env t st)) = generator_calls (trace st) @ [t]"
    and "notes_stamps (trace (generateNotesFromTranscript demo_env t st)) =
           notes_stamps (trace st) @ [demo_tick (Suc (length (generator_calls (trace st))))]"
  using assms generateNotes_stamps [of demo_env t st]
  by (simp_all add: generateNotes_calls demo_simps demo_clock_calls)

lemma demo_cleanup:
  assumes "trim (fullTranscript st) \<noteq> []" "recordedFrames st \<noteq> []"
    "44 + length (concat (recordedFrames st)) \<le> 4294967296"
    "36 + length (concat (recordedFrames st)) < 2 ^ 32"
  shows "generator_calls (trace (cleanup demo_env st)) = generator_calls (trace st) @ [fullTranscript st]"
    and "notes_stamps (trace (cleanup demo_env st)) =
           notes_stamps (trace st) @ [demo_tick (Suc (length (generator_calls (trace st))))]"
    and "wav_stamps (trace (cleanup demo_env st)) =
           wav_stamps (trace st) @ [demo_tick (Suc (length (generator_calls (trace st))))]"
  using assms cleanup_stamps [of demo_env st]
  by (simp_all add: cleanup_calls generateNotes_calls demo_simps demo_clock_calls)

text \<open>
  An interrupt on the concrete session, then the close that the \<open>ws.close()\<close> of
  \<open>cleanup\<close> brings: the generator is called three times, a second apart, and three
  notes files and two audio files result.
\<close>

theorem interrupt_then_close_writes_again:
  "trim (fullTranscript demo_state) \<noteq> [] \<and> recordedFrames demo_state \<noteq> []
   \<and> length (notes_files (trace (steps demo_env demo_state [SIGINT, WsClosed]))) = 3
   \<and> length (wav_files (trace (steps demo_env demo_state [SIGINT, WsClosed]))) = 2"
proof -
  let ?ft = "''buy milk ''"
  let ?a = "emit (ConsoleLog ''Ctrl+C received. Stopping and generating notes...'') demo_state"
  let ?s1 = "step demo_env demo_state SIGINT"
  let ?b = "emit (ConsoleLog ''WebSocket Disconnected'') (set_readyState CLOSED ?s1)"
  let ?c = "generateNotesFromTranscript demo_env ?ft ?b"
  let ?s2 = "step demo_env ?s1 WsClosed"
  have a: "fullTranscript ?a = ?ft" "recordedFrames ?a = [[1, 2, 3, 4]]"
    "generator_calls (trace ?a) = []" "notes_stamps (trace ?a) = []" "wav_stamps (trace ?a) = []"
    by (simp_all add: demo_state_simps)
  have s1: "?s1 = emit (ExitAfter 2000 0) (cleanup demo_env ?a)"
    by (simp add: step_def on_SIGINT_def demo_state_simps)
  have s1f: "fullTranscript ?s1 = ?ft" "recordedFrames ?s1 = [[1, 2, 3, 4]]" "handlersInstalled ?s1"
    using a by (simp_all add: s1 demo_state_simps)
  have s1t: "generator_calls (trace ?s1) = [?ft]" "notes_stamps (trace ?s1) = [demo_tick (Suc 0)]"
    "wav_stamps (trace ?s1) = [demo_tick (Suc 0)]"
    using demo_cleanup [of ?a] a by (simp_all add: s1 trim_demo)
  have b: "fullTranscript ?b = ?ft" "recordedFrames ?b = [[1, 2, 3, 4]]"
    "generator_calls (trace ?b) = [?ft]" "notes_stamps (trace ?b) = [demo_tick (Suc 0)]"
    "wav_stamps (trace ?b) = [demo_tick (Suc 0)]"
    using s1f s1t by simp_all
  have c: "fullTranscript ?c = ?ft" "recordedFrames ?c = [[1, 2, 3, 4]]"
    "generator_calls (trace ?c) = [?ft, ?ft]" "notes_stamps (trace ?c) = [demo_tick (Suc 0), demo_tick (Suc (Suc 0))]"
    "wav_stamps (trace ?c) = [demo_tick (Suc 0)]"
    using demo_generate [of ?ft ?b] b by (simp_all add: trim_demo)
  have s2: "?s2 = cleanup demo_env ?c"
    using s1f b by (simp add: step_def ws_on_close_def Let_def trim_demo)
  have s2t: "notes_stamps (trace ?s2) = [demo_tick (Suc 0), demo_tick (Suc (Suc 0)), demo_tick (Suc (Suc (Suc 0)))]"
    "wav_stamps (trace ?s2) = [demo_tick (Suc 0), demo_tick (Suc (Suc (Suc 0)))]"
    using demo_cleanup [of ?c] c by (simp_all add: s2 trim_demo)
  have ticks: "demo_tick (Suc 0) \<noteq> demo_tick (Suc (Suc 0))" "demo_tick (Suc 0) \<noteq> demo_tick (Suc (Suc (Suc 0)))" "demo_tick (Suc (Suc 0)) \<noteq> demo_tick (Suc (Suc (Suc 0)))"
    by (simp_all add: demo_tick_def)
  have "steps demo_env demo_state [SIGINT, WsClosed] = ?s2"
    by (simp add: steps_Cons steps_Nil)
  then show ?thesis
    using s2t ticks by (simp add: notes_files_def wav_files_def demo_state_simps trim_demo)
qed

lemma requireAuth_issued:
  assumes "db_tokens d token = Some uid" "uid \<noteq> []" "authorization req = Some (''Bearer '' @ token)"
  shows "requireAuth d req = Some (Uid uid)"
  using assms
  by (simp add: requireAuth_def tokens_get_def Let_def)

lemma requireAuth_no_header:
  assumes "authorization req = None" "db_tokens d [] = None"
  shows "requireAuth d req = None"
  using assms
  by (simp add: requireAuth_def tokens_get_def Object_prototype_def Let_def)

lemma get_notes_result:
  "get_notes req d =
     (case requireAuth d req of
        None \<Rightarrow> (Response 401 (ErrorBody ''Unauthorized''), d)
      | Some who \<Rightarrow> (Response 200 (NotesBody (filter (\<lambda>n. userId n = who) (db_notes d))), d))"
  by (simp add: get_notes_def Let_def split: option.splits)

text \<open>
  Claim C10.  \<open>GET /notes\<close> leaves the database as it is.  When \<open>requireAuth\<close> finds an
  owner for the token presented, the answer is 200 with the stored notes of that owner,
  and no other note, in the order in which they were stored; otherwise it is 401.  For a
  token that \<open>login\<close> has stored for a user, the owner is that user.
\<close>

theorem get_notes_returns_own_notes:
  "(http_method req = ''GET'' \<and> url req = ''/notes'' \<longrightarrow>
      snd (handleRequest rt req d) = d
      \<and> (requireAuth d req = None \<longrightarrow>
            fst (handleRequest rt req d) = Response 401 (ErrorBody ''Unauthorized''))
      \<and> (\<forall>who. requireAuth d req = Some who \<longrightarrow>
            fst (handleRequest rt req d) =
              Response 200 (NotesBody (filter (\<lambda>n. userId n = who) (db_notes d)))))
   \<and> (db_tokens d token = Some uid \<and> uid \<noteq> [] \<and> authorization req = Some (''Bearer '' @ token)
        \<longrightarrow> requireAuth d req = Some (Uid uid))"
proof -
  have "handleRequest rt req d = get_notes req d" if "http_method req = ''GET'' \<and> url req = ''/notes''"
    using that by (simp add: handleRequest_def)
  then show ?thesis
    using requireAuth_issued [of d token uid req]
    by (auto simp add: get_notes_result split: option.splits)
qed

theorem get_notes_returns_own_notes_witness:
  "handleRequest demo_runtime (get ''/notes'' (Some ''Bearer t1'')) demo_db =
     (Response 200 (NotesBody
        [\<lparr> note_id = ''n1'', userId = Uid ''u1'', transcript = JStr ''x'',
            notes_field = ''Notes for: x'', createdAt = 1 \<rparr>,
         \<lparr> note_id = ''n3'', userId = Uid ''u1'', transcript = JStr ''z'',
            notes_field = ''Notes for: z'', createdAt = 3 \<rparr>]), demo_db)"
proof -
  let ?req = "get ''/notes'' (Some ''Bearer t1'')"
  have r: "http_method ?req = ''GET'' \<and> url ?req = ''/notes''"
    "authorization ?req = Some (''Bearer '' @ ''t1'')"
    by (simp_all add: get_def)
  have t: "db_tokens demo_db ''t1'' = Some ''u1''"
    by (simp add: demo_db_def)
  from get_notes_returns_own_notes [of ?req demo_runtime demo_db "''t1''" "''u1''"] r t
  have a: "requireAuth demo_db ?req = Some (Uid ''u1'')"
    and b: "snd (handleRequest demo_runtime ?req demo_db) = demo_db"
    and c: "fst (handleRequest demo_runtime ?req demo_db) =
              Response 200 (NotesBody (filter (\<lambda>n. userId n = Uid ''u1'') (db_notes demo_db)))"
    by simp_all
  have "filter (\<lambda>n. userId n = Uid ''u1'') (db_notes demo_db) =
     [\<lparr> note_id = ''n1'', userId = Uid ''u1'', transcript = JStr ''x'',
            notes_field = ''Notes for: x'', createdAt = 1 \<rparr>,
         \<lparr> note_id = ''n3'', userId = Uid ''u1'', transcript = JStr ''z'',
            notes_field = ''Notes for: z'', createdAt = 3 \<rparr>]"
    by (simp add: demo_db_def)
  with b c show ?thesis
    by (simp add: prod_eq_iff)
qed

lemma demo_body_parse_simps:
  "demo_body_parse body_register = Some (JObj [(''username'', JStr ''a''), (''password'', JStr ''p'')])"
  "demo_body_parse body_note = Some (JObj [(''transcript'', JStr ''x'')])"
  "demo_body_parse ''{}'' = Some (JObj [])"
  by (simp_all add: demo_body_parse_def body_register_def body_note_def)

lemma body_sizes:
  "\<not> length body_register > 1000000" "\<not> length body_note > 1000000"
  "body_register \<noteq> []" "body_note \<noteq> []"
  by (simp_all add: body_register_def body_note_def)

lemma demo_runtime_simps:
  "parse demo_runtime = demo_body_parse" "sha256 demo_runtime s = ''sha256:'' @ s"
  "randomUUID demo_runtime = ''7d1c7c1e-0000-4000-8000-000000000001''"
  "randomBytes demo_runtime = ''00112233445566778899aabbccddeeff''"
  "Date_now demo_runtime = 1700000000000" "saveDB_ok demo_runtime"
  by (simp_all add: demo_runtime_def)

text \<open>
  Claim C9, where the program departs from it.  The token \<open>constructor\<close> was never
  issued, yet \<open>db.tokens['constructor']\<close> finds the member that every object inherits,
  and the note is created: the answer is 201, not 401.
\<close>

theorem inherited_name_passes_requireAuth:
  "db_tokens empty_db ''constructor'' = None
   \<and> fst (handleRequest demo_runtime (post ''/notes'' (Some ''Bearer constructor'') body_note) empty_db)
       = Response 201 (NoteBody
           \<lparr> note_id = ''7d1c7c1e-0000-4000-8000-000000000001'', userId = Inherited ''constructor'',
             transcript = JStr ''x'', notes_field = ''Notes for: x'',
             createdAt = 1700000000000 \<rparr>)"
  by (simp add: handleRequest_def post_def post_notes_def requireAuth_def tokens_get_def
      empty_db_def Object_prototype_def parseBody_def reply_def body_sizes demo_runtime_simps
      demo_body_parse_simps Let_def)

text \<open>
  The exchange of the claim on the empty database: registration, a second registration
  of the same name, login, and a note created with the token; then the requests that
  lack a field or a token.
\<close>

lemma http_exchange:
  "handleRequest demo_runtime (post ''/register'' None body_register) empty_db =
     (Response 201 (UserBody ''7d1c7c1e-0000-4000-8000-000000000001'' (JStr ''a'')), d1)
   \<Longrightarrow> handleRequest demo_runtime (post ''/login'' None body_register) d1 = (r2, d2)
   \<Longrightarrow> fst (handleRequest demo_runtime (post ''/register'' None body_register) d1)
         = Response 409 (ErrorBody ''user exists'')
       \<and> r2 = Response 200 (TokenBody ''00112233445566778899aabbccddeeff'')
       \<and> fst (handleRequest demo_runtime
                (post ''/notes'' (Some ''Bearer 00112233445566778899aabbccddeeff'') body_note) d2)
           = Response 201 (NoteBody
               \<lparr> note_id = ''7d1c7c1e-0000-4000-8000-000000000001'',
                 userId = Uid ''7d1c7c1e-0000-4000-8000-000000000001'',
                 transcript = JStr ''x'', notes_field = ''Notes for: x'',
                 createdAt = 1700000000000 \<rparr>)
       \<and> fst (handleRequest demo_runtime (post ''/register'' None ''{}'') d2)
           = Response 400 (ErrorBody ''username and password required'')
       \<and> fst (handleRequest demo_runtime
                (post ''/notes'' (Some ''Bearer 00112233445566778899aabbccddeeff'') ''{}'') d2)
           = Response 400 (ErrorBody ''transcript required'')
       \<and> fst (handleRequest demo_runtime (post ''/notes'' None body_note) d2)
           = Response 401 (ErrorBody ''Unauthorized'')
       \<and> fst (handleRequest demo_runtime (get ''/notes'' None) d2)
           = Response 401 (ErrorBody ''Unauthorized'')"
  by (auto simp add: handleRequest_def post_def get_def register_def login_def post_notes_def
      get_notes_def requireAuth_def tokens_get_def tokens_set_def hashPassword_def
      empty_db_def Object_prototype_def parseBody_def reply_def body_sizes demo_runtime_simps
      demo_body_parse_simps Let_def)

lemma register_first:
  "\<exists>d1. handleRequest demo_runtime (post ''/register'' None body_register) empty_db =
     (Response 201 (UserBody ''7d1c7c1e-0000-4000-8000-000000000001'' (JStr ''a'')), d1)"
  by (simp add: handleRequest_def post_def register_def hashPassword_def
      empty_db_def parseBody_def reply_def body_sizes demo_runtime_simps demo_body_parse_simps Let_def)

text \<open>
  A body beyond a million characters: the answer is lost, the database changes as for
  any other body.
\<close>

lemma long_body_still_handled:
  assumes "length (body req) > 1000000"
  shows "reply req out = (ConnectionDestroyed, snd out)"
  using assms by (simp add: reply_def)

end
